theory Spec2Isabelle
  imports Complex_Main
begin

section \<open>Data model\<close>

text \<open>
  The rows of the user table, as the handlers of \<^verbatim>\<open>app/routers/users.py\<close> read and
  write them (\<^verbatim>\<open>User(email=..., username=..., password_hash=...)\<close>) and as
  \<^verbatim>\<open>UserRead\<close> reads them (\<^verbatim>\<open>id\<close>, \<^verbatim>\<open>created_at\<close>). The field \<^verbatim>\<open>id\<close> is
  called \<open>id_user\<close> here, since \<open>id\<close> is the identity function of HOL.
\<close>

record User =
  id_user :: nat
  username :: string
  email :: string
  password_hash :: string
  created_at :: nat

text \<open>
  The schemas of \<^verbatim>\<open>app/schemas/__init__.py\<close>. A field whose name is already a field of
  \<open>User\<close> carries the schema as a suffix. An optional field (\<^verbatim>\<open>str | None\<close>) is an
  option.
\<close>

record UserCreate =
  username_create :: string
  email_create :: string
  password_create :: string

record UserRead =
  id_read :: nat
  username_read :: string
  email_read :: string
  created_at_read :: nat

record UserProfileUpdate =
  username_new :: "string option"
  email_new :: "string option"

record PasswordChange =
  current_password :: string
  new_password :: string

record UserProfileResponse =
  user_profile :: UserRead
  access_token_profile :: "string option"
  token_type_profile :: string

record UserLogin =
  username_login :: string
  password_login :: string

record Token =
  access_token :: string
  token_type :: string

datatype MessageResponse = MessageResponse (message: string)

text \<open>\<^verbatim>\<open>raise HTTPException(status_code=..., detail=...)\<close> is the left summand of a result.\<close>

datatype HTTPException = HTTPException (status_code: nat) (detail: string)

type_synonym 'a result = "HTTPException + 'a"

text \<open>
  \<^verbatim>\<open>UserRead\<close> has \<^verbatim>\<open>from_attributes=True\<close>: a handler that returns a \<open>User\<close> under
  \<^verbatim>\<open>response_model=UserRead\<close> answers with the four attributes the schema declares.
\<close>

definition UserRead_from :: "User \<Rightarrow> UserRead" where
  "UserRead_from u =
     \<lparr>id_read = id_user u, username_read = username u, email_read = email u,
      created_at_read = created_at u\<rparr>"

text \<open>
  The constraints of \<^verbatim>\<open>UserProfileUpdate\<close>: a username, when given, has between 3
  and 50 characters (\<^verbatim>\<open>min_length=3, max_length=50\<close>); an email, when given, is an
  \<^verbatim>\<open>EmailStr\<close>, of which only this much is modelled: it is not empty (the syntax
  check itself is the validation library's). The handler only ever receives a body that
  passed them.
\<close>

definition UserProfileUpdate_valid :: "UserProfileUpdate \<Rightarrow> bool" where
  "UserProfileUpdate_valid update \<longleftrightarrow>
     (case username_new update of
        None \<Rightarrow> True
      | Some n \<Rightarrow> 3 \<le> length n \<and> length n \<le> 50) \<and>
     (case email_new update of
        None \<Rightarrow> True
      | Some e \<Rightarrow> e \<noteq> [])"

section \<open>The utilities the handlers call\<close>

text \<open>
  \<^verbatim>\<open>hash_password\<close>, \<^verbatim>\<open>verify_password\<close> (\<^verbatim>\<open>app.utils\<close>) and
  \<^verbatim>\<open>create_access_token\<close> (\<^verbatim>\<open>app.utils.auth\<close>) are imported by the router; their
  code lies outside the modules verified here, so the handlers take them as parameters:
  every theorem below holds for all of them unless it names an assumption.
  \<^verbatim>\<open>create_access_token(data={"sub": name})\<close> is applied to the name.
\<close>

record utils =
  hash_password :: "string \<Rightarrow> string"
  verify_password :: "string \<Rightarrow> string \<Rightarrow> bool"
  create_access_token :: "string \<Rightarrow> string"

section \<open>The store\<close>

text \<open>
  The user table is the list of its rows in insertion order;
  \<^verbatim>\<open>db.query(User).filter(P).first()\<close> is \<^const>\<open>find\<close>. The key of a new row is
  above every key in the table.
\<close>

primrec max_id :: "User list \<Rightarrow> nat" where
  "max_id [] = 0"
| "max_id (u # us) = max (id_user u) (max_id us)"

definition fresh_id :: "User list \<Rightarrow> nat" where
  "fresh_id db = Suc (max_id db)"

text \<open>
  \<^verbatim>\<open>db.commit()\<close> after attributes of a loaded row object were assigned: the row with
  the object's primary key takes the object's attributes.
\<close>

definition commit :: "User list \<Rightarrow> User \<Rightarrow> User list" where
  "commit db obj = map (\<lambda>u. if id_user u = id_user obj then obj else u) db"

text \<open>
  The truth value Python gives an optional string in \<^verbatim>\<open>if update.username\<close>:
  \<^verbatim>\<open>None\<close> and the empty string are false. The result is the string when it is true.
\<close>

definition truthy :: "string option \<Rightarrow> string option" where
  "truthy x = (case x of None \<Rightarrow> None | Some s \<Rightarrow> if s = [] then None else Some s)"

section \<open>The handlers of \<^verbatim>\<open>app/routers/users.py\<close>\<close>

text \<open>
  Each handler takes the table and returns the table after the request together with
  the response or the exception raised. \<open>now\<close> is the creation time the store gives a
  new row.
\<close>

definition register_user ::
  "utils \<Rightarrow> nat \<Rightarrow> User list \<Rightarrow> UserCreate \<Rightarrow> User list \<times> UserRead result" where
  "register_user U now db user =
     (case find (\<lambda>u. email u = email_create user) db of
        Some db_user_email \<Rightarrow> (db, Inl (HTTPException 400 ''Email already registered''))
      | None \<Rightarrow>
         (case find (\<lambda>u. username u = username_create user) db of
            Some db_user_username \<Rightarrow> (db, Inl (HTTPException 400 ''Username already taken''))
          | None \<Rightarrow>
             (let hashed_pwd = hash_password U (password_create user);
                  new_user = \<lparr>id_user = fresh_id db, username = username_create user,
                              email = email_create user, password_hash = hashed_pwd,
                              created_at = now\<rparr>
              in (db @ [new_user], Inr (UserRead_from new_user)))))"

definition login_user :: "utils \<Rightarrow> User list \<Rightarrow> UserLogin \<Rightarrow> User list \<times> Token result" where
  "login_user U db user =
     (case find (\<lambda>u. username u = username_login user) db of
        None \<Rightarrow> (db, Inl (HTTPException 401 ''Invalid credentials''))
      | Some db_user \<Rightarrow>
         (if \<not> verify_password U (password_login user) (password_hash db_user)
          then (db, Inl (HTTPException 401 ''Invalid credentials''))
          else (db, Inr \<lparr>access_token = create_access_token U (username db_user),
                         token_type = ''bearer''\<rparr>)))"

definition read_current_user :: "User \<Rightarrow> UserRead" where
  "read_current_user current_user = UserRead_from current_user"

text \<open>
  \<open>current_user\<close> is the row object \<^verbatim>\<open>get_current_user\<close> loaded for this request.
  The two lookups come before any assignment, so a rejected update leaves the table as it
  was. \<^verbatim>\<open>db.refresh(current_user)\<close> reloads the row just committed; the response is
  made from the object as assigned.
\<close>

definition update_current_user ::
  "utils \<Rightarrow> User list \<Rightarrow> User \<Rightarrow> UserProfileUpdate \<Rightarrow> User list \<times> UserProfileResponse result" where
  "update_current_user U db current_user update =
     (if (case truthy (username_new update) of
            None \<Rightarrow> False
          | Some n \<Rightarrow> n \<noteq> username current_user \<and> find (\<lambda>u. username u = n) db \<noteq> None)
      then (db, Inl (HTTPException 400 ''Username already taken''))
      else if (case truthy (email_new update) of
            None \<Rightarrow> False
          | Some e \<Rightarrow> e \<noteq> email current_user \<and> find (\<lambda>u. email u = e) db \<noteq> None)
      then (db, Inl (HTTPException 400 ''Email already registered''))
      else
        (let cu1 = (case truthy (username_new update) of
                      None \<Rightarrow> current_user
                    | Some n \<Rightarrow> current_user\<lparr>username := n\<rparr>);
             cu2 = (case truthy (email_new update) of
                      None \<Rightarrow> cu1
                    | Some e \<Rightarrow> cu1\<lparr>email := e\<rparr>);
             new_token = (case truthy (username_new update) of
                      None \<Rightarrow> None
                    | Some n \<Rightarrow> Some (create_access_token U (username cu2)))
         in (commit db cu2,
             Inr \<lparr>user_profile = UserRead_from cu2, access_token_profile = new_token,
                  token_type_profile = ''bearer''\<rparr>)))"

definition change_password ::
  "utils \<Rightarrow> User list \<Rightarrow> User \<Rightarrow> PasswordChange \<Rightarrow> User list \<times> MessageResponse result" where
  "change_password U db current_user payload =
     (if \<not> verify_password U (current_password payload) (password_hash current_user)
      then (db, Inl (HTTPException 400 ''Current password is incorrect''))
      else (commit db (current_user\<lparr>password_hash := hash_password U (new_password payload)\<rparr>),
            Inr (MessageResponse ''Password updated successfully'')))"

section \<open>Reachable states of the user table\<close>

text \<open>
  The table starts empty and changes only through the handlers. The profile and
  password handlers run for a row of the table (the one \<^verbatim>\<open>get_current_user\<close>
  loaded). The utilities may differ from request to request (a hash is salted, a token
  carries its expiry).
\<close>

inductive reachable :: "User list \<Rightarrow> bool" where
  initial: "reachable []"
| register: "reachable db \<Longrightarrow> reachable (fst (register_user U now db user))"
| login: "reachable db \<Longrightarrow> reachable (fst (login_user U db credentials))"
| update: "reachable db \<Longrightarrow> current_user \<in> set db
    \<Longrightarrow> reachable (fst (update_current_user U db current_user update))"
| change: "reachable db \<Longrightarrow> current_user \<in> set db
    \<Longrightarrow> reachable (fst (change_password U db current_user payload))"

definition unique_users :: "User list \<Rightarrow> bool" where
  "unique_users db \<longleftrightarrow>
     distinct (map id_user db) \<and> distinct (map username db) \<and> distinct (map email db)"

section \<open>Calculations\<close>

text \<open>
  The calculation schemas, the calculation model, the calculation router and
  \<^verbatim>\<open>get_current_user\<close> are imported by the modules verified here
  (\<^verbatim>\<open>app.schemas.calculation\<close>, \<^verbatim>\<open>app.models\<close>, \<^verbatim>\<open>app.utils.auth\<close>) and
  exercised by the tests, but their code lies outside them. This section models them
  from the specification and from the requests and answers of the tests.
\<close>

text \<open>Modelled from the spec: the four calculation types the tests send
  (\<^verbatim>\<open>app.schemas.calculation.CalculationType\<close> is missing).\<close>

datatype CalculationType = Add | Subtract | Multiply | Divide

text \<open>Modelled from the spec: a calculation record (\<^verbatim>\<open>app.models.Calculation\<close> is
  missing) with the fields the tests read: \<^verbatim>\<open>id\<close>, \<^verbatim>\<open>a\<close>, \<^verbatim>\<open>b\<close>, \<^verbatim>\<open>type\<close>,
  \<^verbatim>\<open>result\<close>, \<^verbatim>\<open>user_id\<close>. Operands and result are numbers; rounding of the
  machine's floating point is not modelled.\<close>

record Calculation =
  id_calc :: nat
  a_calc :: real
  b_calc :: real
  type_calc :: CalculationType
  result_calc :: real
  user_id :: nat

text \<open>Modelled from the spec: the body of a create request
  (\<^verbatim>\<open>CalculationCreate\<close> is missing), \<^verbatim>\<open>{"a": 10, "b": 5, "type": "Add"}\<close>.\<close>

record CalculationCreate =
  a_create :: real
  b_create :: real
  type_create :: CalculationType

text \<open>Modelled from the spec: the body of an update request
  (\<^verbatim>\<open>CalculationUpdate\<close> is missing); the tests send any subset of the fields, as
  in \<^verbatim>\<open>{"type": "Subtract"}\<close>.\<close>

record CalculationUpdate =
  a_new :: "real option"
  b_new :: "real option"
  type_new :: "CalculationType option"

text \<open>Modelled from the spec: the arithmetic of a calculation with its "one-line guard"
  against division by zero (the code is missing); the tests expect status 422 and the
  words "Division by zero".\<close>

definition calculate :: "CalculationType \<Rightarrow> real \<Rightarrow> real \<Rightarrow> real result" where
  "calculate t x y =
     (case t of
        Add \<Rightarrow> Inr (x + y)
      | Subtract \<Rightarrow> Inr (x - y)
      | Multiply \<Rightarrow> Inr (x * y)
      | Divide \<Rightarrow> if y = 0 then Inl (HTTPException 422 ''Division by zero'') else Inr (x / y))"

text \<open>Modelled from the spec: "token-based identity resolution"
  (\<^verbatim>\<open>app.utils.auth.get_current_user\<close> is missing). \<open>decode_token\<close> is the token
  validation utility: it gives the name a token was signed for, or nothing. A request
  with no bearer token, with a token that does not validate or with one that names no
  stored user is answered with status 401.\<close>

definition get_current_user ::
  "(string \<Rightarrow> string option) \<Rightarrow> User list \<Rightarrow> string option \<Rightarrow> User result" where
  "get_current_user decode_token db authorization =
     (case authorization of
        None \<Rightarrow> Inl (HTTPException 401 ''Not authenticated'')
      | Some token \<Rightarrow>
         (case decode_token token of
            None \<Rightarrow> Inl (HTTPException 401 ''Could not validate credentials'')
          | Some sub \<Rightarrow>
             (case find (\<lambda>u. username u = sub) db of
                None \<Rightarrow> Inl (HTTPException 401 ''Could not validate credentials'')
              | Some u \<Rightarrow> Inr u)))"

text \<open>Modelled from the spec: the key the store gives a new calculation (the model is
  missing): above every key in the table.\<close>

primrec max_calc_id :: "Calculation list \<Rightarrow> nat" where
  "max_calc_id [] = 0"
| "max_calc_id (c # cs) = max (id_calc c) (max_calc_id cs)"

text \<open>Modelled from the spec: the lookup of one calculation "scoped to the authenticated
  user" (the router is missing): the record with the given key that belongs to the
  user.\<close>

definition own_calculation :: "Calculation list \<Rightarrow> User \<Rightarrow> nat \<Rightarrow> Calculation option" where
  "own_calculation calcs current_user calc_id =
     find (\<lambda>c. id_calc c = calc_id \<and> user_id c = id_user current_user) calcs"

text \<open>Modelled from the spec: the create handler (the router is missing): identity
  resolution, then the guarded arithmetic, then a new record owned by the user.\<close>

definition create_calculation ::
  "(string \<Rightarrow> string option) \<Rightarrow> User list \<Rightarrow> Calculation list \<Rightarrow> string option
     \<Rightarrow> CalculationCreate \<Rightarrow> Calculation list \<times> Calculation result" where
  "create_calculation decode_token db calcs authorization calculation =
     (case get_current_user decode_token db authorization of
        Inl e \<Rightarrow> (calcs, Inl e)
      | Inr current_user \<Rightarrow>
         (case calculate (type_create calculation) (a_create calculation)
                 (b_create calculation) of
            Inl e \<Rightarrow> (calcs, Inl e)
          | Inr r \<Rightarrow>
             (let db_calc = \<lparr>id_calc = Suc (max_calc_id calcs),
                             a_calc = a_create calculation, b_calc = b_create calculation,
                             type_calc = type_create calculation, result_calc = r,
                             user_id = id_user current_user\<rparr>
              in (calcs @ [db_calc], Inr db_calc))))"

text \<open>Modelled from the spec: the list handler (the router is missing): the records of
  the authenticated user.\<close>

definition read_calculations ::
  "(string \<Rightarrow> string option) \<Rightarrow> User list \<Rightarrow> Calculation list \<Rightarrow> string option
     \<Rightarrow> Calculation list \<times> Calculation list result" where
  "read_calculations decode_token db calcs authorization =
     (case get_current_user decode_token db authorization of
        Inl e \<Rightarrow> (calcs, Inl e)
      | Inr current_user \<Rightarrow>
         (calcs, Inr (filter (\<lambda>c. user_id c = id_user current_user) calcs)))"

text \<open>Modelled from the spec: the read handler (the router is missing); the tests expect
  status 404 for a record that is not there.\<close>

definition read_calculation ::
  "(string \<Rightarrow> string option) \<Rightarrow> User list \<Rightarrow> Calculation list \<Rightarrow> string option
     \<Rightarrow> nat \<Rightarrow> Calculation list \<times> Calculation result" where
  "read_calculation decode_token db calcs authorization calc_id =
     (case get_current_user decode_token db authorization of
        Inl e \<Rightarrow> (calcs, Inl e)
      | Inr current_user \<Rightarrow>
         (case own_calculation calcs current_user calc_id of
            None \<Rightarrow> (calcs, Inl (HTTPException 404 ''Calculation not found''))
          | Some db_calc \<Rightarrow> (calcs, Inr db_calc)))"

text \<open>Modelled from the spec: the update handler (the router is missing): the fields
  given replace the stored ones, the result is computed again under the same guard, and
  the record with that key is written.\<close>

definition update_calculation ::
  "(string \<Rightarrow> string option) \<Rightarrow> User list \<Rightarrow> Calculation list \<Rightarrow> string option
     \<Rightarrow> nat \<Rightarrow> CalculationUpdate \<Rightarrow> Calculation list \<times> Calculation result" where
  "update_calculation decode_token db calcs authorization calc_id calculation =
     (case get_current_user decode_token db authorization of
        Inl e \<Rightarrow> (calcs, Inl e)
      | Inr current_user \<Rightarrow>
         (case own_calculation calcs current_user calc_id of
            None \<Rightarrow> (calcs, Inl (HTTPException 404 ''Calculation not found''))
          | Some db_calc \<Rightarrow>
             (let x = (case a_new calculation of None \<Rightarrow> a_calc db_calc | Some v \<Rightarrow> v);
                  y = (case b_new calculation of None \<Rightarrow> b_calc db_calc | Some v \<Rightarrow> v);
                  t = (case type_new calculation of None \<Rightarrow> type_calc db_calc | Some v \<Rightarrow> v)
              in (case calculate t x y of
                    Inl e \<Rightarrow> (calcs, Inl e)
                  | Inr r \<Rightarrow>
                     (let new_calc = db_calc\<lparr>a_calc := x, b_calc := y, type_calc := t,
                                             result_calc := r\<rparr>
                      in (map (\<lambda>c. if id_calc c = calc_id then new_calc else c) calcs,
                          Inr new_calc))))))"

text \<open>Modelled from the spec: the delete handler (the router is missing); the answer to
  a successful delete has no content.\<close>

definition delete_calculation ::
  "(string \<Rightarrow> string option) \<Rightarrow> User list \<Rightarrow> Calculation list \<Rightarrow> string option
     \<Rightarrow> nat \<Rightarrow> Calculation list \<times> unit result" where
  "delete_calculation decode_token db calcs authorization calc_id =
     (case get_current_user decode_token db authorization of
        Inl e \<Rightarrow> (calcs, Inl e)
      | Inr current_user \<Rightarrow>
         (case own_calculation calcs current_user calc_id of
            None \<Rightarrow> (calcs, Inl (HTTPException 404 ''Calculation not found''))
          | Some db_calc \<Rightarrow> (filter (\<lambda>c. id_calc c \<noteq> calc_id) calcs, Inr ())))"

text \<open>
  The calculation tables the handlers can produce from the empty one, whatever the user
  table is at each request.
\<close>

inductive reachable_calcs :: "Calculation list \<Rightarrow> bool" where
  no_calcs: "reachable_calcs []"
| created: "reachable_calcs calcs
    \<Longrightarrow> reachable_calcs (fst (create_calculation D db calcs authorization calculation))"
| updated: "reachable_calcs calcs
    \<Longrightarrow> reachable_calcs (fst (update_calculation D db calcs authorization calc_id calculation))"
| deleted: "reachable_calcs calcs
    \<Longrightarrow> reachable_calcs (fst (delete_calculation D db calcs authorization calc_id))"

definition well_formed :: "Calculation \<Rightarrow> bool" where
  "well_formed c \<longleftrightarrow> calculate (type_calc c) (a_calc c) (b_calc c) = Inr (result_calc c)"

text \<open>The invariant of the calculation table: keys are unique and every record is well
  formed.\<close>

definition calcs_inv :: "Calculation list \<Rightarrow> bool" where
  "calcs_inv calcs \<longleftrightarrow> distinct (map id_calc calcs) \<and> (\<forall>c \<in> set calcs. well_formed c)"

text \<open>
  The operation a type names, in the words of the claim about stored results: the sum for
  Add, the difference for Subtract, the product for Multiply, the quotient for Divide.
\<close>

definition named_operation :: "CalculationType \<Rightarrow> real \<Rightarrow> real \<Rightarrow> real" where
  "named_operation t x y =
     (case t of Add \<Rightarrow> x + y | Subtract \<Rightarrow> x - y | Multiply \<Rightarrow> x * y | Divide \<Rightarrow> x / y)"

section \<open>Concrete data\<close>

text \<open>
  A concrete choice of the utilities and a few rows and requests, at which the handlers
  are evaluated below.
\<close>

definition example_utils :: utils where
  "example_utils =
     \<lparr>hash_password = (\<lambda>p. ''hash:'' @ p),
      verify_password = (\<lambda>p h. h = ''hash:'' @ p),
      create_access_token = (\<lambda>sub. ''token:'' @ sub)\<rparr>"

definition other_utils :: utils where
  "other_utils =
     \<lparr>hash_password = (\<lambda>p. ''other:'' @ rev p),
      verify_password = (\<lambda>p h. h = ''other:'' @ rev p),
      create_access_token = (\<lambda>sub. ''token:'' @ sub)\<rparr>"

definition example_decode :: "string \<Rightarrow> string option" where
  "example_decode = map_of [(''token:alice'', ''alice''), (''token:bob'', ''bob'')]"

definition alice :: User where
  "alice = \<lparr>id_user = 1, username = ''alice'', email = ''alice@example.com'',
            password_hash = ''hash:securepass123'', created_at = 0\<rparr>"

definition bob :: User where
  "bob = \<lparr>id_user = 2, username = ''bob'', email = ''bob@example.com'',
          password_hash = ''hash:securepass456'', created_at = 1\<rparr>"

definition alice_rehashed :: User where
  "alice_rehashed = alice\<lparr>password_hash := ''other:321ssaperuces''\<rparr>"

definition bob_rehashed :: User where
  "bob_rehashed = bob\<lparr>password_hash := ''other:654ssaperuces''\<rparr>"

definition carol_create :: UserCreate where
  "carol_create = \<lparr>username_create = ''carol'', email_create = ''carol@example.com'',
                   password_create = ''securepass789''\<rparr>"

definition alice_sum :: Calculation where
  "alice_sum = \<lparr>id_calc = 1, a_calc = 10, b_calc = 5, type_calc = Add, result_calc = 15,
                user_id = 1\<rparr>"

definition bob_quotient :: Calculation where
  "bob_quotient = \<lparr>id_calc = 2, a_calc = 20, b_calc = 4, type_calc = Divide,
                   result_calc = 5, user_id = 2\<rparr>"

definition alice_difference :: Calculation where
  "alice_difference = \<lparr>id_calc = 1, a_calc = 10, b_calc = 5, type_calc = Subtract,
                       result_calc = 5, user_id = 1\<rparr>"

definition alice_product :: Calculation where
  "alice_product = \<lparr>id_calc = 3, a_calc = 7, b_calc = 8, type_calc = Multiply,
                    result_calc = 56, user_id = 1\<rparr>"

definition seven_times_eight :: CalculationCreate where
  "seven_times_eight = \<lparr>a_create = 7, b_create = 8, type_create = Multiply\<rparr>"

definition ten_plus_five :: CalculationCreate where
  "ten_plus_five = \<lparr>a_create = 10, b_create = 5, type_create = Add\<rparr>"

definition twenty_by_four :: CalculationCreate where
  "twenty_by_four = \<lparr>a_create = 20, b_create = 4, type_create = Divide\<rparr>"

definition ten_by_zero :: CalculationCreate where
  "ten_by_zero = \<lparr>a_create = 10, b_create = 0, type_create = Divide\<rparr>"

definition to_subtract :: CalculationUpdate where
  "to_subtract = \<lparr>a_new = None, b_new = None, type_new = Some Subtract\<rparr>"

definition divisor_zero :: CalculationUpdate where
  "divisor_zero = \<lparr>a_new = None, b_new = Some 0, type_new = None\<rparr>"

definition alice_create :: UserCreate where
  "alice_create = \<lparr>username_create = ''alice'', email_create = ''alice@example.com'',
                   password_create = ''securepass123''\<rparr>"

definition bob_create :: UserCreate where
  "bob_create = \<lparr>username_create = ''bob'', email_create = ''bob@example.com'',
                 password_create = ''securepass456''\<rparr>"

definition alice_login :: UserLogin where
  "alice_login = \<lparr>username_login = ''alice'', password_login = ''securepass123''\<rparr>"

definition alice_wrong_login :: UserLogin where
  "alice_wrong_login = \<lparr>username_login = ''alice'', password_login = ''wrongpassword''\<rparr>"

definition bob_with_alice_email :: UserCreate where
  "bob_with_alice_email = \<lparr>username_create = ''bob'', email_create = ''alice@example.com'',
                           password_create = ''securepass789''\<rparr>"

definition bob_other_email :: UserCreate where
  "bob_other_email = \<lparr>username_create = ''bob'', email_create = ''robert@example.com'',
                      password_create = ''securepass789''\<rparr>"

definition same_password :: PasswordChange where
  "same_password = \<lparr>current_password = ''securepass123'', new_password = ''securepass123''\<rparr>"

definition wrong_current :: PasswordChange where
  "wrong_current = \<lparr>current_password = ''wrongpass'', new_password = ''newsecure123''\<rparr>"

definition good_change :: PasswordChange where
  "good_change = \<lparr>current_password = ''securepass123'', new_password = ''newsecure123''\<rparr>"

definition email_only :: UserProfileUpdate where
  "email_only = \<lparr>username_new = None, email_new = Some ''alice@example.org''\<rparr>"

definition same_username :: UserProfileUpdate where
  "same_username = \<lparr>username_new = Some ''alice'', email_new = None\<rparr>"

definition both_fields :: UserProfileUpdate where
  "both_fields = \<lparr>username_new = Some ''alicia'', email_new = Some ''alicia@example.com''\<rparr>"

definition take_bob_username :: UserProfileUpdate where
  "take_bob_username = \<lparr>username_new = Some ''bob'', email_new = None\<rparr>"

definition take_bob_email :: UserProfileUpdate where
  "take_bob_email = \<lparr>username_new = None, email_new = Some ''bob@example.com''\<rparr>"

section \<open>Lookups and writes\<close>

lemma find_None_image: "find (\<lambda>u. f u = v) xs = None \<longleftrightarrow> v \<notin> f ` set xs"
  by (auto simp: find_None_iff)

lemma find_unique:
  "distinct (map f xs) \<Longrightarrow> x \<in> set xs \<Longrightarrow> find (\<lambda>y. f y = f x) xs = Some x"
  by (induction xs) (auto simp: image_iff)

lemma find_in_set: "find P xs = Some x \<Longrightarrow> x \<in> set xs \<and> P x"
  by (induction xs) (auto split: if_splits)

lemma max_id_ge: "u \<in> set db \<Longrightarrow> id_user u \<le> max_id db"
  by (induction db) auto

lemma fresh_id_gt: "u \<in> set db \<Longrightarrow> id_user u < fresh_id db"
  by (simp add: fresh_id_def max_id_ge le_imp_less_Suc)

lemma commit_ids: "map id_user (commit db obj) = map id_user db"
  by (simp add: commit_def)

lemma commit_member:
  "x \<in> set db \<Longrightarrow> id_user x' = id_user x \<Longrightarrow> x' \<in> set (commit db x')"
  by (force simp: commit_def)

lemma distinct_commit:
  assumes "distinct (map id_user db)" and "distinct (map f db)" and "x \<in> set db"
    and "id_user x' = id_user x" and "f x' = f x \<or> f x' \<notin> f ` set db"
  shows "distinct (map f (commit db x'))"
  using assms
proof (induction db)
  case Nil
  then show ?case by simp
next
  case (Cons y ys)
  show ?case
  proof (cases "id_user y = id_user x")
    case True
    with Cons.prems have xy: "x = y" by force
    from Cons.prems have "id_user y \<notin> id_user ` set ys" by simp
    with Cons.prems True have "\<forall>u \<in> set ys. id_user u \<noteq> id_user x'"
      by (metis image_eqI)
    then have "commit ys x' = ys"
      by (simp add: commit_def map_idI)
    with True Cons.prems(4) have eq: "commit (y # ys) x' = x' # ys"
      by (simp add: commit_def)
    from Cons.prems(2) have "f y \<notin> f ` set ys" and "distinct (map f ys)" by simp_all
    moreover from Cons.prems(5) xy have "f x' = f y \<or> f x' \<notin> f ` set ys" by auto
    ultimately show ?thesis
      unfolding eq by auto
  next
    case False
    with Cons.prems have "x \<in> set ys" by auto
    with Cons have IH: "distinct (map f (commit ys x'))" by auto
    have "f y \<notin> f ` set (commit ys x')"
      using Cons.prems False \<open>x \<in> set ys\<close> by (auto simp: commit_def split: if_splits)
    moreover from False Cons.prems(4) have "commit (y # ys) x' = y # commit ys x'"
      by (simp add: commit_def)
    ultimately show ?thesis
      using IH by simp
  qed
qed

section \<open>The invariant\<close>

lemma register_user_unique:
  assumes "unique_users db"
  shows "unique_users (fst (register_user U now db user))"
proof (cases "find (\<lambda>u. email u = email_create user) db")
  case (Some x)
  with assms show ?thesis by (simp add: register_user_def)
next
  case e: None
  show ?thesis
  proof (cases "find (\<lambda>u. username u = username_create user) db")
    case (Some x)
    with e assms show ?thesis by (simp add: register_user_def)
  next
    case n: None
    have "fresh_id db \<notin> id_user ` set db"
      using fresh_id_gt by fastforce
    moreover from e have "email_create user \<notin> email ` set db"
      by (simp add: find_None_image)
    moreover from n have "username_create user \<notin> username ` set db"
      by (simp add: find_None_image)
    ultimately show ?thesis
      using assms e n by (simp add: register_user_def unique_users_def Let_def)
  qed
qed

lemma login_user_state: "fst (login_user U db user) = db"
  by (simp add: login_user_def split: option.splits)

lemma change_password_unique:
  assumes "unique_users db" and "current_user \<in> set db"
  shows "unique_users (fst (change_password U db current_user payload))"
proof (cases "verify_password U (current_password payload) (password_hash current_user)")
  case False
  with assms show ?thesis by (simp add: change_password_def)
next
  case True
  let ?obj = "current_user\<lparr>password_hash := hash_password U (new_password payload)\<rparr>"
  from assms have "distinct (map username (commit db ?obj))"
    by (intro distinct_commit [where x = current_user]) (simp_all add: unique_users_def)
  moreover from assms have "distinct (map email (commit db ?obj))"
    by (intro distinct_commit [where x = current_user]) (simp_all add: unique_users_def)
  ultimately show ?thesis
    using assms True by (simp add: change_password_def unique_users_def commit_ids)
qed

lemma update_current_user_unique:
  assumes "unique_users db" and "current_user \<in> set db"
  shows "unique_users (fst (update_current_user U db current_user update))"
proof (cases "snd (update_current_user U db current_user update)")
  case (Inl e)
  then have "fst (update_current_user U db current_user update) = db"
    by (auto simp: update_current_user_def Let_def split: if_splits)
  with assms show ?thesis by simp
next
  case (Inr r)
  define cu1 where "cu1 = (case truthy (username_new update) of
                      None \<Rightarrow> current_user
                    | Some n \<Rightarrow> current_user\<lparr>username := n\<rparr>)"
  define cu2 where "cu2 = (case truthy (email_new update) of
                      None \<Rightarrow> cu1
                    | Some e \<Rightarrow> cu1\<lparr>email := e\<rparr>)"
  from Inr have ok1: "\<not> (case truthy (username_new update) of
            None \<Rightarrow> False
          | Some n \<Rightarrow> n \<noteq> username current_user \<and> find (\<lambda>u. username u = n) db \<noteq> None)"
    and ok2: "\<not> (case truthy (email_new update) of
            None \<Rightarrow> False
          | Some e \<Rightarrow> e \<noteq> email current_user \<and> find (\<lambda>u. email u = e) db \<noteq> None)"
    by (auto simp: update_current_user_def Let_def split: if_splits)
  then have st: "fst (update_current_user U db current_user update) = commit db cu2"
    unfolding cu1_def cu2_def by (simp add: update_current_user_def Let_def)
  have id2: "id_user cu2 = id_user current_user"
    by (simp add: cu1_def cu2_def split: option.splits)
  have "username cu2 = username current_user \<or> username cu2 \<notin> username ` set db"
    using ok1 by (auto simp: cu1_def cu2_def find_None_image split: option.splits)
  with assms id2 have "distinct (map username (commit db cu2))"
    by (intro distinct_commit [where x = current_user]) (simp_all add: unique_users_def)
  moreover have "email cu2 = email current_user \<or> email cu2 \<notin> email ` set db"
    using ok2 by (auto simp: cu1_def cu2_def find_None_image split: option.splits)
  with assms id2 have "distinct (map email (commit db cu2))"
    by (intro distinct_commit [where x = current_user]) (simp_all add: unique_users_def)
  ultimately show ?thesis
    using assms by (simp add: st unique_users_def commit_ids)
qed

lemma reachable_unique: "reachable db \<Longrightarrow> unique_users db"
proof (induction rule: reachable.induct)
  case initial
  show ?case by (simp add: unique_users_def)
next
  case (register db U now user)
  then show ?case by (simp add: register_user_unique)
next
  case (login db U credentials)
  then show ?case by (simp add: login_user_state)
next
  case (update db current_user U update)
  then show ?case by (simp add: update_current_user_unique)
next
  case (change db current_user U payload)
  then show ?case by (simp add: change_password_unique)
qed

section \<open>Concrete states\<close>

lemma register_alice: "register_user example_utils 0 [] alice_create = ([alice], Inr (UserRead_from alice))"
  by (simp add: register_user_def alice_create_def alice_def example_utils_def fresh_id_def Let_def)

lemma register_bob: "register_user example_utils 1 [alice] bob_create = ([alice, bob], Inr (UserRead_from bob))"
  by (simp add: register_user_def bob_create_def alice_def bob_def example_utils_def fresh_id_def
      Let_def numeral_2_eq_2)

lemma reachable_alice: "reachable [alice]"
  using reachable.register [OF reachable.initial, of example_utils 0 alice_create]
  by (simp only: register_alice fst_conv)

lemma reachable_alice_bob: "reachable [alice, bob]"
  using reachable.register [OF reachable_alice, of example_utils 1 bob_create]
  by (simp only: register_bob fst_conv)

section \<open>Registration: the order of the two lookups\<close>

text \<open>
  C8. When the email and the username of a registration request are both stored already,
  the email lookup comes first: the answer is status 400 with detail
  "Email already registered", and the table is as before.
\<close>

theorem register_user_email_conflict_first:
  assumes "\<exists>u \<in> set db. email u = email_create user"
    and "\<exists>u \<in> set db. username u = username_create user"
  shows "register_user U now db user =
           (db, Inl (HTTPException 400 ''Email already registered''))"
proof -
  from assms(1) have "find (\<lambda>u. email u = email_create user) db \<noteq> None"
    by (auto simp: find_None_iff)
  then obtain x where "find (\<lambda>u. email u = email_create user) db = Some x"
    by blast
  then show ?thesis
    by (simp add: register_user_def)
qed

theorem register_user_email_conflict_first_witness:
  "(\<exists>u \<in> set [alice, bob]. email u = email_create \<lparr>username_create = ''bob'', email_create = ''alice@example.com'', password_create = ''securepass789''\<rparr>)
   \<and> (\<exists>u \<in> set [alice, bob]. username u = username_create \<lparr>username_create = ''bob'', email_create = ''alice@example.com'', password_create = ''securepass789''\<rparr>)
   \<and> register_user example_utils 2 [alice, bob] \<lparr>username_create = ''bob'', email_create = ''alice@example.com'', password_create = ''securepass789''\<rparr>
     = ([alice, bob], Inl (HTTPException 400 ''Email already registered''))"
proof -
  let ?r = "\<lparr>username_create = ''bob'', email_create = ''alice@example.com'', password_create = ''securepass789''\<rparr>"
  have e: "\<exists>u \<in> set [alice, bob]. email u = email_create ?r"
    by (simp add: alice_def)
  have n: "\<exists>u \<in> set [alice, bob]. username u = username_create ?r"
    by (simp add: bob_def)
  from e n register_user_email_conflict_first [OF e n, of example_utils 2]
  show ?thesis by simp
qed

section \<open>Login\<close>

text \<open>
  C2. On a table in which no two users share a name (every reachable table is one, see
  \<open>reachable_unique\<close>), login answers with a token made for the given name and
  token type "bearer" if a stored user has that name and the password verifies against
  that user's stored hash; in every other case (no such user, or the password does not
  verify) it raises status 401 with detail "Invalid credentials". In both cases the table
  is returned as it was.
\<close>

theorem login_user_correct:
  assumes "distinct (map username db)"
  shows "((\<exists>u \<in> set db. username u = username_login user
             \<and> verify_password U (password_login user) (password_hash u))
          \<longrightarrow> login_user U db user =
                (db, Inr \<lparr>access_token = create_access_token U (username_login user),
                         token_type = ''bearer''\<rparr>))
       \<and> (\<not> (\<exists>u \<in> set db. username u = username_login user
             \<and> verify_password U (password_login user) (password_hash u))
          \<longrightarrow> login_user U db user = (db, Inl (HTTPException 401 ''Invalid credentials'')))"
proof (intro conjI impI)
  assume "\<exists>u \<in> set db. username u = username_login user
             \<and> verify_password U (password_login user) (password_hash u)"
  then obtain u where u: "u \<in> set db" "username u = username_login user"
      "verify_password U (password_login user) (password_hash u)" by blast
  from find_unique [OF assms u(1)] u(2)
  have "find (\<lambda>v. username v = username_login user) db = Some u" by simp
  with u show "login_user U db user =
               (db, Inr \<lparr>access_token = create_access_token U (username_login user),
                        token_type = ''bearer''\<rparr>)"
    by (simp add: login_user_def)
next
  assume "\<not> (\<exists>u \<in> set db. username u = username_login user
             \<and> verify_password U (password_login user) (password_hash u))"
  then show "login_user U db user = (db, Inl (HTTPException 401 ''Invalid credentials''))"
    by (auto simp: login_user_def split: option.splits dest: find_in_set)
qed

theorem login_user_correct_witness:
  "distinct (map username [alice, bob])
   \<and> (\<exists>u \<in> set [alice, bob]. username u = username_login alice_login
         \<and> verify_password example_utils (password_login alice_login) (password_hash u))
   \<and> login_user example_utils [alice, bob] alice_login
      = ([alice, bob],
         Inr \<lparr>access_token = create_access_token example_utils (username_login alice_login),
              token_type = ''bearer''\<rparr>)
   \<and> \<not> (\<exists>u \<in> set [alice, bob]. username u = username_login alice_wrong_login
         \<and> verify_password example_utils (password_login alice_wrong_login) (password_hash u))
   \<and> login_user example_utils [alice, bob] alice_wrong_login
      = ([alice, bob], Inl (HTTPException 401 ''Invalid credentials''))"
proof -
  have d: "distinct (map username [alice, bob])"
    by (simp add: alice_def bob_def)
  have ok: "\<exists>u \<in> set [alice, bob]. username u = username_login alice_login
         \<and> verify_password example_utils (password_login alice_login) (password_hash u)"
    by (simp add: alice_def alice_login_def example_utils_def)
  have bad: "\<not> (\<exists>u \<in> set [alice, bob]. username u = username_login alice_wrong_login
         \<and> verify_password example_utils (password_login alice_wrong_login) (password_hash u))"
    by (simp add: alice_def bob_def alice_wrong_login_def example_utils_def)
  note login_user_correct [OF d, THEN conjunct1, THEN mp, OF ok]
    login_user_correct [OF d, THEN conjunct2, THEN mp, OF bad]
  with d ok bad show ?thesis by blast
qed

section \<open>Unique usernames and emails\<close>

lemma truthy_valid_username:
  "UserProfileUpdate_valid update \<Longrightarrow> truthy (username_new update) = username_new update"
  by (auto simp: UserProfileUpdate_valid_def truthy_def split: option.splits)

lemma truthy_valid_email:
  "UserProfileUpdate_valid update \<Longrightarrow> truthy (email_new update) = email_new update"
  by (auto simp: UserProfileUpdate_valid_def truthy_def split: option.splits)

text \<open>
  C3 (amended). In every reachable table no two users share a username and no two share
  an email. Registration with a stored email is rejected with status 400 and detail
  "Email already registered"; registration with a stored username and an email that is
  not stored is rejected with status 400 and detail "Username already taken". A profile
  update that changes the username to a stored one is rejected with status 400, and so
  is one that changes the email to a stored one. Every rejection returns the table as it
  was.
\<close>

theorem unique_usernames_and_emails:
  assumes "reachable db"
  shows "distinct (map username db) \<and> distinct (map email db)
    \<and> (email_create user \<in> email ` set db
        \<longrightarrow> register_user U now db user =
              (db, Inl (HTTPException 400 ''Email already registered'')))
    \<and> (username_create user \<in> username ` set db \<longrightarrow> email_create user \<notin> email ` set db
        \<longrightarrow> register_user U now db user =
              (db, Inl (HTTPException 400 ''Username already taken'')))
    \<and> (UserProfileUpdate_valid update \<longrightarrow> username_new update = Some n
        \<longrightarrow> n \<noteq> username current_user \<longrightarrow> n \<in> username ` set db
        \<longrightarrow> update_current_user U db current_user update =
              (db, Inl (HTTPException 400 ''Username already taken'')))
    \<and> (UserProfileUpdate_valid update \<longrightarrow> email_new update = Some e
        \<longrightarrow> e \<noteq> email current_user \<longrightarrow> e \<in> email ` set db
        \<longrightarrow> (\<exists>d. update_current_user U db current_user update =
                   (db, Inl (HTTPException 400 d))))"
proof (intro conjI impI)
  from assms have "unique_users db" by (rule reachable_unique)
  then show "distinct (map username db)" and "distinct (map email db)"
    by (simp_all add: unique_users_def)
next
  assume "email_create user \<in> email ` set db"
  then obtain x where "find (\<lambda>u. email u = email_create user) db = Some x"
    using find_None_image [of email "email_create user" db] by auto
  then show "register_user U now db user =
              (db, Inl (HTTPException 400 ''Email already registered''))"
    by (simp add: register_user_def)
next
  assume "username_create user \<in> username ` set db" and "email_create user \<notin> email ` set db"
  then obtain x where "find (\<lambda>u. username u = username_create user) db = Some x"
    and "find (\<lambda>u. email u = email_create user) db = None"
    using find_None_image [of username "username_create user" db]
      find_None_image [of email "email_create user" db] by auto
  then show "register_user U now db user =
              (db, Inl (HTTPException 400 ''Username already taken''))"
    by (simp add: register_user_def)
next
  assume "UserProfileUpdate_valid update" and "username_new update = Some n"
    and "n \<noteq> username current_user" and "n \<in> username ` set db"
  moreover from this have "find (\<lambda>u. username u = n) db \<noteq> None"
    by (simp add: find_None_image)
  ultimately show "update_current_user U db current_user update =
              (db, Inl (HTTPException 400 ''Username already taken''))"
    using truthy_valid_username [of update] by (simp add: update_current_user_def)
next
  assume "UserProfileUpdate_valid update" and "email_new update = Some e"
    and "e \<noteq> email current_user" and "e \<in> email ` set db"
  moreover from this have "find (\<lambda>u. email u = e) db \<noteq> None"
    by (simp add: find_None_image)
  ultimately show "\<exists>d. update_current_user U db current_user update =
                   (db, Inl (HTTPException 400 d))"
    using truthy_valid_email [of update] by (simp add: update_current_user_def)
qed

text \<open>
  The claim as first stated gives detail "Username already taken" to every registration
  whose username is stored. With the email stored as well, the answer names the email.
\<close>

theorem register_username_detail_counterexample:
  "username_create bob_with_alice_email \<in> username ` set [alice, bob]
   \<and> register_user example_utils 2 [alice, bob] bob_with_alice_email
       = ([alice, bob], Inl (HTTPException 400 ''Email already registered''))
   \<and> register_user example_utils 2 [alice, bob] bob_with_alice_email
       \<noteq> ([alice, bob], Inl (HTTPException 400 ''Username already taken''))"
  by (simp add: register_user_def bob_with_alice_email_def alice_def bob_def)


theorem unique_usernames_and_emails_witness:
  "reachable [alice, bob]
   \<and> distinct (map username [alice, bob]) \<and> distinct (map email [alice, bob])
   \<and> email_create bob_with_alice_email \<in> email ` set [alice, bob]
   \<and> register_user example_utils 2 [alice, bob] bob_with_alice_email
       = ([alice, bob], Inl (HTTPException 400 ''Email already registered''))
   \<and> username_create bob_other_email \<in> username ` set [alice, bob]
   \<and> email_create bob_other_email \<notin> email ` set [alice, bob]
   \<and> register_user example_utils 2 [alice, bob] bob_other_email
       = ([alice, bob], Inl (HTTPException 400 ''Username already taken''))
   \<and> UserProfileUpdate_valid take_bob_username
   \<and> username_new take_bob_username = Some ''bob''
   \<and> ''bob'' \<noteq> username alice \<and> ''bob'' \<in> username ` set [alice, bob]
   \<and> update_current_user example_utils [alice, bob] alice take_bob_username
       = ([alice, bob], Inl (HTTPException 400 ''Username already taken''))
   \<and> UserProfileUpdate_valid take_bob_email
   \<and> email_new take_bob_email = Some ''bob@example.com''
   \<and> ''bob@example.com'' \<noteq> email alice \<and> ''bob@example.com'' \<in> email ` set [alice, bob]
   \<and> (\<exists>d. update_current_user example_utils [alice, bob] alice take_bob_email
       = ([alice, bob], Inl (HTTPException 400 d)))"
proof -
  note T = unique_usernames_and_emails [where U = example_utils and now = 2,
    OF reachable_alice_bob]
  have e1: "email_create bob_with_alice_email \<in> email ` set [alice, bob]"
    by (simp add: bob_with_alice_email_def alice_def)
  have n2: "username_create bob_other_email \<in> username ` set [alice, bob]"
    by (simp add: bob_other_email_def bob_def)
  have e2: "email_create bob_other_email \<notin> email ` set [alice, bob]"
    by (simp add: bob_other_email_def alice_def bob_def)
  have v3: "UserProfileUpdate_valid take_bob_username"
    by (simp add: UserProfileUpdate_valid_def take_bob_username_def)
  have u3: "username_new take_bob_username = Some ''bob''"
    by (simp add: take_bob_username_def)
  have d3: "''bob'' \<noteq> username alice" by (simp add: alice_def)
  have m3: "''bob'' \<in> username ` set [alice, bob]" by (simp add: bob_def)
  have v4: "UserProfileUpdate_valid take_bob_email"
    by (simp add: UserProfileUpdate_valid_def take_bob_email_def)
  have u4: "email_new take_bob_email = Some ''bob@example.com''"
    by (simp add: take_bob_email_def)
  have d4: "''bob@example.com'' \<noteq> email alice" by (simp add: alice_def)
  have m4: "''bob@example.com'' \<in> email ` set [alice, bob]" by (simp add: bob_def)
  note T [THEN conjunct1] T [THEN conjunct2, THEN conjunct1]
    T [THEN conjunct2, THEN conjunct2, THEN conjunct1, THEN mp, OF e1]
    T [THEN conjunct2, THEN conjunct2, THEN conjunct2, THEN conjunct1, THEN mp, THEN mp,
      OF n2 e2]
    T [THEN conjunct2, THEN conjunct2, THEN conjunct2, THEN conjunct2, THEN conjunct1,
      THEN mp, THEN mp, THEN mp, THEN mp, OF v3 u3 d3 m3]
    T [THEN conjunct2, THEN conjunct2, THEN conjunct2, THEN conjunct2, THEN conjunct2,
      THEN mp, THEN mp, THEN mp, THEN mp, OF v4 u4 d4 m4]
  with reachable_alice_bob e1 n2 e2 v3 u3 d3 m3 v4 u4 d4 m4 show ?thesis
    by (intro conjI)
qed

section \<open>Changing the password\<close>

lemma login_user_row:
  assumes "distinct (map username db)" and "u \<in> set db"
  shows "login_user U db \<lparr>username_login = username u, password_login = q\<rparr> =
           (if verify_password U q (password_hash u)
            then (db, Inr \<lparr>access_token = create_access_token U (username u),
                           token_type = ''bearer''\<rparr>)
            else (db, Inl (HTTPException 401 ''Invalid credentials'')))"
  using find_unique [OF assms] by (simp add: login_user_def)

text \<open>
  C5 (amended). For a user of a reachable table, change-password first verifies the
  current password given against the stored hash. If that fails, it raises status 400
  with detail "Current password is incorrect" and returns the table as it was (so every
  login is answered as before). If it succeeds, it answers "Password updated
  successfully", the user's row now holds the hash of the new password, and afterwards a
  login under the user's name succeeds with exactly the passwords that verify against
  the hash of the new password and is refused with status 401 for all others.
\<close>

theorem change_password_correct:
  assumes "reachable db" and "current_user \<in> set db"
  shows "(\<not> verify_password U (current_password payload) (password_hash current_user)
          \<longrightarrow> change_password U db current_user payload =
                (db, Inl (HTTPException 400 ''Current password is incorrect'')))
    \<and> (verify_password U (current_password payload) (password_hash current_user)
          \<longrightarrow> snd (change_password U db current_user payload) =
                Inr (MessageResponse ''Password updated successfully'')
            \<and> find (\<lambda>u. id_user u = id_user current_user)
                 (fst (change_password U db current_user payload)) =
                Some (current_user\<lparr>password_hash := hash_password U (new_password payload)\<rparr>)
            \<and> (\<forall>q. login_user U (fst (change_password U db current_user payload))
                      \<lparr>username_login = username current_user, password_login = q\<rparr> =
                    (if verify_password U q (hash_password U (new_password payload))
                     then (fst (change_password U db current_user payload),
                           Inr \<lparr>access_token = create_access_token U (username current_user),
                                token_type = ''bearer''\<rparr>)
                     else (fst (change_password U db current_user payload),
                           Inl (HTTPException 401 ''Invalid credentials'')))))"
proof (intro conjI impI allI)
  assume "\<not> verify_password U (current_password payload) (password_hash current_user)"
  then show "change_password U db current_user payload =
                (db, Inl (HTTPException 400 ''Current password is incorrect''))"
    by (simp add: change_password_def)
next
  assume "verify_password U (current_password payload) (password_hash current_user)"
  then show "snd (change_password U db current_user payload) =
                Inr (MessageResponse ''Password updated successfully'')"
    by (simp add: change_password_def)
next
  let ?obj = "current_user\<lparr>password_hash := hash_password U (new_password payload)\<rparr>"
  let ?db' = "fst (change_password U db current_user payload)"
  assume v: "verify_password U (current_password payload) (password_hash current_user)"
  then have st: "?db' = commit db ?obj"
    by (simp add: change_password_def)
  from assms(1) have uniq: "unique_users db" by (rule reachable_unique)
  from uniq have "unique_users ?db'"
    using assms(2) by (rule change_password_unique)
  then have d: "distinct (map id_user ?db')" and dn: "distinct (map username ?db')"
    by (simp_all add: unique_users_def)
  have mem: "?obj \<in> set ?db'"
    unfolding st using assms(2) by (rule commit_member) simp
  from find_unique [OF d mem]
  show "find (\<lambda>u. id_user u = id_user current_user) ?db' = Some ?obj"
    by simp
  fix q
  from login_user_row [OF dn mem, of U q]
  show "login_user U ?db' \<lparr>username_login = username current_user, password_login = q\<rparr> =
          (if verify_password U q (hash_password U (new_password payload))
           then (?db', Inr \<lparr>access_token = create_access_token U (username current_user),
                            token_type = ''bearer''\<rparr>)
           else (?db', Inl (HTTPException 401 ''Invalid credentials'')))"
    by simp
qed

text \<open>
  The claim as first stated has the login with the old password fail after every
  successful change. When the new password is the old one, the change succeeds and the
  login with the old password still succeeds.
\<close>

theorem change_password_same_counterexample:
  "snd (change_password example_utils [alice] alice same_password)
     = Inr (MessageResponse ''Password updated successfully'')
   \<and> snd (login_user example_utils
            (fst (change_password example_utils [alice] alice same_password))
            \<lparr>username_login = ''alice'', password_login = current_password same_password\<rparr>)
     = Inr \<lparr>access_token = ''token:alice'', token_type = ''bearer''\<rparr>"
  by (simp add: change_password_def login_user_def commit_def same_password_def alice_def
      example_utils_def)


theorem change_password_correct_witness:
  "reachable [alice, bob] \<and> alice \<in> set [alice, bob]
   \<and> \<not> verify_password example_utils (current_password wrong_current) (password_hash alice)
   \<and> change_password example_utils [alice, bob] alice wrong_current
       = ([alice, bob], Inl (HTTPException 400 ''Current password is incorrect''))
   \<and> verify_password example_utils (current_password good_change) (password_hash alice)
   \<and> snd (change_password example_utils [alice, bob] alice good_change)
       = Inr (MessageResponse ''Password updated successfully'')
   \<and> find (\<lambda>u. id_user u = id_user alice)
        (fst (change_password example_utils [alice, bob] alice good_change))
       = Some (alice\<lparr>password_hash := hash_password example_utils (new_password good_change)\<rparr>)
   \<and> snd (login_user example_utils
        (fst (change_password example_utils [alice, bob] alice good_change))
        \<lparr>username_login = username alice, password_login = ''newsecure123''\<rparr>)
       = Inr \<lparr>access_token = ''token:alice'', token_type = ''bearer''\<rparr>
   \<and> snd (login_user example_utils
        (fst (change_password example_utils [alice, bob] alice good_change))
        \<lparr>username_login = username alice, password_login = ''securepass123''\<rparr>)
       = Inl (HTTPException 401 ''Invalid credentials'')"
proof -
  have mem: "alice \<in> set [alice, bob]" by simp
  note C = change_password_correct [where U = example_utils, OF reachable_alice_bob mem]
  have f: "\<not> verify_password example_utils (current_password wrong_current)
             (password_hash alice)"
    by (simp add: example_utils_def wrong_current_def alice_def)
  have g: "verify_password example_utils (current_password good_change) (password_hash alice)"
    by (simp add: example_utils_def good_change_def alice_def)
  note F = C [THEN conjunct1, THEN mp, OF f]
  note G = C [THEN conjunct2, THEN mp, OF g]
  have new: "verify_password example_utils ''newsecure123''
               (hash_password example_utils (new_password good_change))"
    by (simp add: example_utils_def good_change_def)
  have old: "\<not> verify_password example_utils ''securepass123''
               (hash_password example_utils (new_password good_change))"
    by (simp add: example_utils_def good_change_def)
  have tok: "create_access_token example_utils (username alice) = ''token:alice''"
    by (simp add: example_utils_def alice_def)
  from G [THEN conjunct2, THEN conjunct2] new tok
  have l1: "snd (login_user example_utils
        (fst (change_password example_utils [alice, bob] alice good_change))
        \<lparr>username_login = username alice, password_login = ''newsecure123''\<rparr>)
       = Inr \<lparr>access_token = ''token:alice'', token_type = ''bearer''\<rparr>"
    by simp
  from G [THEN conjunct2, THEN conjunct2] old
  have l2: "snd (login_user example_utils
        (fst (change_password example_utils [alice, bob] alice good_change))
        \<lparr>username_login = username alice, password_login = ''securepass123''\<rparr>)
       = Inl (HTTPException 401 ''Invalid credentials'')"
    by simp
  from reachable_alice_bob mem f F g G [THEN conjunct1] G [THEN conjunct2, THEN conjunct1] l1 l2
  show ?thesis by (intro conjI)
qed

section \<open>Profile update\<close>

text \<open>
  C9. For a request body that passed validation and a profile update that succeeded: the
  response carries an access token exactly when the body has a username, and then it is
  the token for that username, whether or not it differs from the current one; with no
  username in the body (an update of the email only) the access token is null; the token
  type is "bearer"; the row written is the current user's with the same key, password
  hash and creation time, with the username unchanged when the body has none and the
  email unchanged when the body has none, and the response shows that row.
\<close>

theorem update_current_user_response:
  assumes "UserProfileUpdate_valid update"
    and "update_current_user U db current_user update = (db', Inr r)"
  shows "(access_token_profile r \<noteq> None \<longleftrightarrow> username_new update \<noteq> None)
    \<and> (\<forall>n. username_new update = Some n
           \<longrightarrow> access_token_profile r = Some (create_access_token U n))
    \<and> (username_new update = None \<longrightarrow> access_token_profile r = None)
    \<and> token_type_profile r = ''bearer''
    \<and> (\<exists>row. db' = commit db row \<and> user_profile r = UserRead_from row
           \<and> id_user row = id_user current_user
           \<and> password_hash row = password_hash current_user
           \<and> created_at row = created_at current_user
           \<and> (username_new update = None \<longrightarrow> username row = username current_user)
           \<and> (email_new update = None \<longrightarrow> email row = email current_user))"
proof -
  define cu1 where "cu1 = (case username_new update of
                      None \<Rightarrow> current_user
                    | Some n \<Rightarrow> current_user\<lparr>username := n\<rparr>)"
  define cu2 where "cu2 = (case email_new update of
                      None \<Rightarrow> cu1
                    | Some e \<Rightarrow> cu1\<lparr>email := e\<rparr>)"
  note t = truthy_valid_username [OF assms(1)] truthy_valid_email [OF assms(1)]
  from assms(2) have db': "db' = commit db cu2"
    and r: "r = \<lparr>user_profile = UserRead_from cu2,
                 access_token_profile = (case username_new update of
                      None \<Rightarrow> None
                    | Some n \<Rightarrow> Some (create_access_token U (username cu2))),
                 token_type_profile = ''bearer''\<rparr>"
    unfolding cu1_def cu2_def
    by (auto simp: update_current_user_def t Let_def split: if_splits)
  have name: "username_new update = Some n \<Longrightarrow> username cu2 = n" for n
    by (simp add: cu1_def cu2_def split: option.splits)
  have row: "id_user cu2 = id_user current_user"
    "password_hash cu2 = password_hash current_user"
    "created_at cu2 = created_at current_user"
    "username_new update = None \<longrightarrow> username cu2 = username current_user"
    "email_new update = None \<longrightarrow> email cu2 = email current_user"
    by (simp_all add: cu1_def cu2_def split: option.splits)
  have "access_token_profile r \<noteq> None \<longleftrightarrow> username_new update \<noteq> None"
    by (simp add: r split: option.splits)
  moreover have "\<forall>n. username_new update = Some n
           \<longrightarrow> access_token_profile r = Some (create_access_token U n)"
    by (simp add: r name)
  moreover have "username_new update = None \<longrightarrow> access_token_profile r = None"
    by (simp add: r)
  moreover have "token_type_profile r = ''bearer''"
    by (simp add: r)
  moreover have "\<exists>row. db' = commit db row \<and> user_profile r = UserRead_from row
           \<and> id_user row = id_user current_user
           \<and> password_hash row = password_hash current_user
           \<and> created_at row = created_at current_user
           \<and> (username_new update = None \<longrightarrow> username row = username current_user)
           \<and> (email_new update = None \<longrightarrow> email row = email current_user)"
    using db' row by (intro exI [of _ cu2]) (simp add: r)
  ultimately show ?thesis by blast
qed


theorem update_current_user_response_witness:
  "UserProfileUpdate_valid email_only
   \<and> update_current_user example_utils [alice, bob] alice email_only
       = ([alice\<lparr>email := ''alice@example.org''\<rparr>, bob],
          Inr \<lparr>user_profile = UserRead_from (alice\<lparr>email := ''alice@example.org''\<rparr>),
               access_token_profile = None, token_type_profile = ''bearer''\<rparr>)
   \<and> username_new email_only = None
   \<and> access_token_profile
        \<lparr>user_profile = UserRead_from (alice\<lparr>email := ''alice@example.org''\<rparr>),
         access_token_profile = None, token_type_profile = ''bearer''\<rparr> = None
   \<and> UserProfileUpdate_valid same_username
   \<and> update_current_user example_utils [alice, bob] alice same_username
       = ([alice, bob],
          Inr \<lparr>user_profile = UserRead_from alice,
               access_token_profile = Some ''token:alice'', token_type_profile = ''bearer''\<rparr>)
   \<and> username_new same_username = Some (username alice)
   \<and> access_token_profile
        \<lparr>user_profile = UserRead_from alice,
         access_token_profile = Some ''token:alice'', token_type_profile = ''bearer''\<rparr>
       = Some (create_access_token example_utils (username alice))"
proof -
  have v1: "UserProfileUpdate_valid email_only"
    by (simp add: UserProfileUpdate_valid_def email_only_def)
  have r1: "update_current_user example_utils [alice, bob] alice email_only
       = ([alice\<lparr>email := ''alice@example.org''\<rparr>, bob],
          Inr \<lparr>user_profile = UserRead_from (alice\<lparr>email := ''alice@example.org''\<rparr>),
               access_token_profile = None, token_type_profile = ''bearer''\<rparr>)"
    by (simp add: update_current_user_def email_only_def truthy_def commit_def alice_def
        bob_def Let_def)
  have n1: "username_new email_only = None"
    by (simp add: email_only_def)
  have v2: "UserProfileUpdate_valid same_username"
    by (simp add: UserProfileUpdate_valid_def same_username_def)
  have r2: "update_current_user example_utils [alice, bob] alice same_username
       = ([alice, bob],
          Inr \<lparr>user_profile = UserRead_from alice,
               access_token_profile = Some ''token:alice'', token_type_profile = ''bearer''\<rparr>)"
    by (simp add: update_current_user_def same_username_def truthy_def commit_def alice_def
        bob_def Let_def example_utils_def)
  have n2: "username_new same_username = Some (username alice)"
    by (simp add: same_username_def alice_def)
  note update_current_user_response [OF v1 r1, THEN conjunct2, THEN conjunct2, THEN conjunct1,
      THEN mp, OF n1]
    update_current_user_response [OF v2 r2, THEN conjunct2, THEN conjunct1, THEN spec,
      THEN mp, OF n2]
  with v1 r1 n1 v2 r2 n2 show ?thesis by (intro conjI)
qed

section \<open>Responses and the password hash\<close>

lemma UserRead_from_fields:
  "id_user u = id_read (UserRead_from u)" "username u = username_read (UserRead_from u)"
  "email u = email_read (UserRead_from u)" "created_at u = created_at_read (UserRead_from u)"
  by (simp_all add: UserRead_from_def)

lemma same_public_columns:
  assumes "map UserRead_from db1 = map UserRead_from db2"
  shows "map id_user db1 = map id_user db2" and "map username db1 = map username db2"
    and "map email db1 = map email db2"
proof -
  have i: "map id_user db = map id_read (map UserRead_from db)" for db
    by (simp add: UserRead_from_def)
  have n: "map username db = map username_read (map UserRead_from db)" for db
    by (simp add: UserRead_from_def)
  have e: "map email db = map email_read (map UserRead_from db)" for db
    by (simp add: UserRead_from_def)
  show "map id_user db1 = map id_user db2" by (simp only: i assms)
  show "map username db1 = map username db2" by (simp only: n assms)
  show "map email db1 = map email db2" by (simp only: e assms)
qed

lemma max_id_map: "max_id db = foldr max (map id_user db) 0"
  by (induction db) simp_all

lemma max_id_cong: "map id_user db1 = map id_user db2 \<Longrightarrow> max_id db1 = max_id db2"
  by (simp only: max_id_map)

lemma register_user_if:
  "register_user U now db user =
     (if find (\<lambda>u. email u = email_create user) db \<noteq> None
      then (db, Inl (HTTPException 400 ''Email already registered''))
      else if find (\<lambda>u. username u = username_create user) db \<noteq> None
      then (db, Inl (HTTPException 400 ''Username already taken''))
      else (db @ [\<lparr>id_user = fresh_id db, username = username_create user,
                     email = email_create user,
                     password_hash = hash_password U (password_create user),
                     created_at = now\<rparr>],
            Inr \<lparr>id_read = fresh_id db, username_read = username_create user,
                 email_read = email_create user, created_at_read = now\<rparr>))"
  by (simp add: register_user_def UserRead_from_def Let_def split: option.splits)


lemma update_current_user_snd:
  "snd (update_current_user U db current_user update) =
     (if (case truthy (username_new update) of
            None \<Rightarrow> False
          | Some n \<Rightarrow> n \<noteq> username current_user \<and> n \<in> username ` set db)
      then Inl (HTTPException 400 ''Username already taken'')
      else if (case truthy (email_new update) of
            None \<Rightarrow> False
          | Some e \<Rightarrow> e \<noteq> email current_user \<and> e \<in> email ` set db)
      then Inl (HTTPException 400 ''Email already registered'')
      else Inr \<lparr>user_profile =
                   \<lparr>id_read = id_user current_user,
                    username_read = (case truthy (username_new update) of
                                       None \<Rightarrow> username current_user | Some n \<Rightarrow> n),
                    email_read = (case truthy (email_new update) of
                                    None \<Rightarrow> email current_user | Some e \<Rightarrow> e),
                    created_at_read = created_at current_user\<rparr>,
                access_token_profile = (case truthy (username_new update) of
                                          None \<Rightarrow> None
                                        | Some n \<Rightarrow> Some (create_access_token U n)),
                token_type_profile = ''bearer''\<rparr>)"
  by (simp add: update_current_user_def UserRead_from_def Let_def find_None_image
      split: option.splits)

text \<open>
  C10. The responses of register, read-current-user and profile update are made from the
  four attributes \<^verbatim>\<open>UserRead\<close> declares (id, username, email, created_at) and from
  nothing else of a row: two tables whose rows agree on these four attributes (and so
  may differ in every stored password hash), with any two hashing utilities, give the
  same response to every request.
\<close>

theorem responses_hide_password_hash:
  assumes "map UserRead_from db1 = map UserRead_from db2"
    and "UserRead_from cu1 = UserRead_from cu2"
    and "create_access_token U1 = create_access_token U2"
  shows "snd (register_user U1 now db1 user) = snd (register_user U2 now db2 user)
    \<and> read_current_user cu1 = read_current_user cu2
    \<and> snd (update_current_user U1 db1 cu1 update) =
       snd (update_current_user U2 db2 cu2 update)"
proof (intro conjI)
  note cols = same_public_columns [OF assms(1)]
  from cols(2) have names: "username ` set db1 = username ` set db2"
    by (metis set_map)
  from cols(3) have emails: "email ` set db1 = email ` set db2"
    by (metis set_map)
  from max_id_cong [OF cols(1)] have fresh: "fresh_id db1 = fresh_id db2"
    by (simp only: fresh_id_def)
  show "snd (register_user U1 now db1 user) = snd (register_user U2 now db2 user)"
    by (simp add: register_user_if find_None_image names emails fresh)
  show "read_current_user cu1 = read_current_user cu2"
    using assms(2) by (simp add: read_current_user_def)
  have cu: "username cu1 = username cu2" "email cu1 = email cu2" "id_user cu1 = id_user cu2"
    "created_at cu1 = created_at cu2"
    using assms(2) by (simp_all add: UserRead_from_fields)
  show "snd (update_current_user U1 db1 cu1 update) =
       snd (update_current_user U2 db2 cu2 update)"
    by (simp only: update_current_user_snd names emails cu assms(3))
qed

theorem responses_hide_password_hash_witness:
  "map UserRead_from [alice, bob] = map UserRead_from [alice_rehashed, bob_rehashed]
   \<and> UserRead_from alice = UserRead_from alice_rehashed
   \<and> create_access_token example_utils = create_access_token other_utils
   \<and> snd (register_user example_utils 2 [alice, bob] carol_create)
       = snd (register_user other_utils 2 [alice_rehashed, bob_rehashed] carol_create)
   \<and> read_current_user alice = read_current_user alice_rehashed
   \<and> snd (update_current_user example_utils [alice, bob] alice both_fields)
       = snd (update_current_user other_utils [alice_rehashed, bob_rehashed] alice_rehashed
               both_fields)"
proof -
  have t: "map UserRead_from [alice, bob] = map UserRead_from [alice_rehashed, bob_rehashed]"
    by (simp add: UserRead_from_def alice_rehashed_def bob_rehashed_def)
  have c: "UserRead_from alice = UserRead_from alice_rehashed"
    by (simp add: UserRead_from_def alice_rehashed_def)
  have k: "create_access_token example_utils = create_access_token other_utils"
    by (simp add: example_utils_def other_utils_def)
  from t c k responses_hide_password_hash [OF t c k, of 2 carol_create both_fields]
  show ?thesis by (intro conjI) simp_all
qed

section \<open>Calculations: the invariant of the table\<close>

lemma get_current_user_status:
  "get_current_user D db authorization = Inl e \<Longrightarrow> status_code e = 401"
  by (auto simp: get_current_user_def split: option.splits)

lemma max_calc_id_ge: "c \<in> set calcs \<Longrightarrow> id_calc c \<le> max_calc_id calcs"
  by (induction calcs) auto

lemma fresh_calc_id: "Suc (max_calc_id calcs) \<notin> id_calc ` set calcs"
  using max_calc_id_ge by fastforce

lemma own_calculation_Some:
  "own_calculation calcs u calc_id = Some c
     \<Longrightarrow> c \<in> set calcs \<and> id_calc c = calc_id \<and> user_id c = id_user u"
  unfolding own_calculation_def by (drule find_in_set) simp

lemma calculate_named:
  "calculate t x y = Inr r \<longleftrightarrow> r = named_operation t x y \<and> (t = Divide \<longrightarrow> y \<noteq> 0)"
  by (cases t) (auto simp: calculate_def named_operation_def)

lemma calculate_Inl:
  "calculate t x y = Inl e \<longleftrightarrow> t = Divide \<and> y = 0 \<and> e = HTTPException 422 ''Division by zero''"
  by (cases t) (auto simp: calculate_def)

lemma create_calculation_cases:
  "create_calculation D db calcs authorization calculation =
     (case get_current_user D db authorization of
        Inl e \<Rightarrow> (calcs, Inl e)
      | Inr u \<Rightarrow>
         if type_create calculation = Divide \<and> b_create calculation = 0
         then (calcs, Inl (HTTPException 422 ''Division by zero''))
         else (calcs @ [\<lparr>id_calc = Suc (max_calc_id calcs),
                 a_calc = a_create calculation, b_calc = b_create calculation,
                 type_calc = type_create calculation,
                 result_calc = named_operation (type_create calculation)
                   (a_create calculation) (b_create calculation),
                 user_id = id_user u\<rparr>],
               Inr \<lparr>id_calc = Suc (max_calc_id calcs),
                 a_calc = a_create calculation, b_calc = b_create calculation,
                 type_calc = type_create calculation,
                 result_calc = named_operation (type_create calculation)
                   (a_create calculation) (b_create calculation),
                 user_id = id_user u\<rparr>))"
proof (cases "get_current_user D db authorization")
  case (Inl e)
  then show ?thesis by (simp add: create_calculation_def)
next
  case u: (Inr u)
  show ?thesis
  proof (cases "calculate (type_create calculation) (a_create calculation)
      (b_create calculation)")
    case (Inl e)
    moreover from Inl have "type_create calculation = Divide \<and> b_create calculation = 0"
      and "e = HTTPException 422 ''Division by zero''"
      by (simp_all add: calculate_Inl)
    ultimately show ?thesis
      using u unfolding create_calculation_def by simp
  next
    case (Inr r)
    moreover from Inr have "r = named_operation (type_create calculation)
        (a_create calculation) (b_create calculation)"
      and "\<not> (type_create calculation = Divide \<and> b_create calculation = 0)"
      by (simp_all add: calculate_named)
    ultimately show ?thesis
      using u unfolding create_calculation_def Let_def by simp
  qed
qed


lemma update_calculation_Inr:
  assumes "update_calculation D db calcs authorization calc_id upd = (calcs', Inr c')"
  shows "\<exists>u c. get_current_user D db authorization = Inr u
           \<and> own_calculation calcs u calc_id = Some c
           \<and> a_calc c' = (case a_new upd of None \<Rightarrow> a_calc c | Some v \<Rightarrow> v)
           \<and> b_calc c' = (case b_new upd of None \<Rightarrow> b_calc c | Some v \<Rightarrow> v)
           \<and> type_calc c' = (case type_new upd of None \<Rightarrow> type_calc c | Some v \<Rightarrow> v)
           \<and> id_calc c' = id_calc c \<and> user_id c' = user_id c
           \<and> calculate (type_calc c') (a_calc c') (b_calc c') = Inr (result_calc c')
           \<and> calcs' = map (\<lambda>d. if id_calc d = calc_id then c' else d) calcs"
proof (cases "get_current_user D db authorization")
  case (Inl e)
  with assms show ?thesis by (simp add: update_calculation_def)
next
  case u: (Inr u)
  show ?thesis
  proof (cases "own_calculation calcs u calc_id")
    case None
    with u assms show ?thesis by (simp add: update_calculation_def)
  next
    case c: (Some c)
    let ?x = "case a_new upd of None \<Rightarrow> a_calc c | Some v \<Rightarrow> v"
    let ?y = "case b_new upd of None \<Rightarrow> b_calc c | Some v \<Rightarrow> v"
    let ?t = "case type_new upd of None \<Rightarrow> type_calc c | Some v \<Rightarrow> v"
    show ?thesis
    proof (cases "calculate ?t ?x ?y")
      case (Inl e)
      with u c assms show ?thesis by (simp add: update_calculation_def Let_def)
    next
      case (Inr r)
      with u c assms have c': "c' = c\<lparr>a_calc := ?x, b_calc := ?y, type_calc := ?t,
                                     result_calc := r\<rparr>"
        and calcs': "calcs' = map (\<lambda>d. if id_calc d = calc_id then c' else d) calcs"
        by (auto simp: update_calculation_def Let_def)
      from c' Inr have "calculate (type_calc c') (a_calc c') (b_calc c') = Inr (result_calc c')"
        by simp
      with u c c' calcs' show ?thesis by simp
    qed
  qed
qed

lemma update_calculation_state:
  "fst (update_calculation D db calcs authorization calc_id upd) = calcs
   \<or> (\<exists>c'. snd (update_calculation D db calcs authorization calc_id upd) = Inr c')"
  by (simp add: update_calculation_def Let_def split: sum.splits option.splits)

lemma delete_calculation_state:
  "fst (delete_calculation D db calcs authorization calc_id) = calcs
   \<or> fst (delete_calculation D db calcs authorization calc_id) =
       filter (\<lambda>c. id_calc c \<noteq> calc_id) calcs"
  by (simp add: delete_calculation_def split: sum.splits option.splits)

lemma create_calculation_inv:
  assumes "calcs_inv calcs"
  shows "calcs_inv (fst (create_calculation D db calcs authorization calculation))"
proof (cases "get_current_user D db authorization")
  case (Inl e)
  with assms show ?thesis by (simp add: create_calculation_cases)
next
  case (Inr u)
  show ?thesis
  proof (cases "type_create calculation = Divide \<and> b_create calculation = 0")
    case True
    with Inr assms show ?thesis by (simp add: create_calculation_cases)
  next
    case False
    then have "calculate (type_create calculation) (a_create calculation)
        (b_create calculation) =
        Inr (named_operation (type_create calculation) (a_create calculation)
          (b_create calculation))"
      by (simp add: calculate_named)
    with Inr False assms fresh_calc_id [of calcs] show ?thesis
      by (simp add: create_calculation_cases calcs_inv_def well_formed_def)
  qed
qed

lemma update_calculation_inv:
  assumes "calcs_inv calcs"
  shows "calcs_inv (fst (update_calculation D db calcs authorization calc_id upd))"
proof -
  from update_calculation_state [of D db calcs authorization calc_id upd]
  show ?thesis
  proof
    assume "fst (update_calculation D db calcs authorization calc_id upd) = calcs"
    with assms show ?thesis by simp
  next
    assume "\<exists>c'. snd (update_calculation D db calcs authorization calc_id upd) = Inr c'"
    then obtain c' where
      "update_calculation D db calcs authorization calc_id upd =
         (fst (update_calculation D db calcs authorization calc_id upd), Inr c')"
      by (metis prod.collapse)
    from update_calculation_Inr [OF this] obtain u c where
      c: "own_calculation calcs u calc_id = Some c" and id: "id_calc c' = id_calc c"
      and wf: "calculate (type_calc c') (a_calc c') (b_calc c') = Inr (result_calc c')"
      and st: "fst (update_calculation D db calcs authorization calc_id upd) =
                 map (\<lambda>d. if id_calc d = calc_id then c' else d) calcs"
      by blast
    from own_calculation_Some [OF c] id have "id_calc c' = calc_id" by simp
    then have "map id_calc (map (\<lambda>d. if id_calc d = calc_id then c' else d) calcs) =
        map id_calc calcs"
      by (simp add: comp_def cong: map_cong)
    with assms have "distinct (map id_calc (map (\<lambda>d. if id_calc d = calc_id then c' else d)
        calcs))"
      by (simp only: calcs_inv_def)
    moreover have "\<forall>d \<in> set (map (\<lambda>d. if id_calc d = calc_id then c' else d) calcs).
        well_formed d"
      using assms wf by (auto simp: calcs_inv_def well_formed_def)
    ultimately show ?thesis
      unfolding st calcs_inv_def by blast
  qed
qed

lemma delete_calculation_inv:
  assumes "calcs_inv calcs"
  shows "calcs_inv (fst (delete_calculation D db calcs authorization calc_id))"
  using delete_calculation_state [of D db calcs authorization calc_id] assms
  by (auto simp: calcs_inv_def distinct_map_filter)

lemma reachable_calcs_inv: "reachable_calcs calcs \<Longrightarrow> calcs_inv calcs"
proof (induction rule: reachable_calcs.induct)
  case no_calcs
  show ?case by (simp add: calcs_inv_def)
next
  case (created calcs D db authorization calculation)
  then show ?case by (simp add: create_calculation_inv)
next
  case (updated calcs D db authorization calc_id calculation)
  then show ?case by (simp add: update_calculation_inv)
next
  case (deleted calcs D db authorization calc_id)
  then show ?case by (simp add: delete_calculation_inv)
qed

section \<open>Calculations: concrete states\<close>

lemma alice_authenticated:
  "get_current_user example_decode [alice, bob] (Some ''token:alice'') = Inr alice"
  by (simp add: get_current_user_def example_decode_def alice_def bob_def)

lemma bob_authenticated:
  "get_current_user example_decode [alice, bob] (Some ''token:bob'') = Inr bob"
  by (simp add: get_current_user_def example_decode_def alice_def bob_def)

lemma create_alice_sum:
  "create_calculation example_decode [alice, bob] [] (Some ''token:alice'') ten_plus_five
     = ([alice_sum], Inr alice_sum)"
proof -
  have "id_user alice = 1" by (simp add: alice_def)
  then show ?thesis
    by (simp add: create_calculation_cases alice_authenticated ten_plus_five_def
        alice_sum_def named_operation_def)
qed

lemma create_bob_quotient:
  "create_calculation example_decode [alice, bob] [alice_sum] (Some ''token:bob'')
     twenty_by_four = ([alice_sum, bob_quotient], Inr bob_quotient)"
proof -
  have "id_user bob = 2" by (simp add: bob_def)
  then show ?thesis
    by (simp add: create_calculation_cases bob_authenticated twenty_by_four_def
        alice_sum_def bob_quotient_def named_operation_def)
qed

lemma reachable_calcs_example: "reachable_calcs [alice_sum, bob_quotient]"
proof -
  from reachable_calcs.created [OF reachable_calcs.no_calcs,
      of example_decode "[alice, bob]" "Some ''token:alice''" ten_plus_five]
  have "reachable_calcs [alice_sum]"
    by (simp only: create_alice_sum fst_conv)
  from reachable_calcs.created [OF this,
      of example_decode "[alice, bob]" "Some ''token:bob''" twenty_by_four]
  show ?thesis
    by (simp only: create_bob_quotient fst_conv)
qed

section \<open>Division by zero\<close>

text \<open>
  C4. For an authenticated user, creating a calculation of type Divide with b = 0 raises
  status 422 with detail "Division by zero" and returns the table as it was; so does an
  update of one of the user's calculations after which the type would be Divide and b
  would be 0. In every table the handlers can produce, every stored Divide calculation
  has a divisor other than 0, and its result is the quotient.
\<close>

theorem division_by_zero_rejected:
  "(get_current_user D db authorization = Inr u \<longrightarrow> type_create calculation = Divide
      \<longrightarrow> b_create calculation = 0
      \<longrightarrow> create_calculation D db calcs authorization calculation =
            (calcs, Inl (HTTPException 422 ''Division by zero'')))
   \<and> (get_current_user D db authorization = Inr u
      \<longrightarrow> own_calculation calcs u calc_id = Some c
      \<longrightarrow> (case type_new upd of None \<Rightarrow> type_calc c | Some t \<Rightarrow> t) = Divide
      \<longrightarrow> (case b_new upd of None \<Rightarrow> b_calc c | Some y \<Rightarrow> y) = 0
      \<longrightarrow> update_calculation D db calcs authorization calc_id upd =
            (calcs, Inl (HTTPException 422 ''Division by zero'')))
   \<and> (reachable_calcs calcs
      \<longrightarrow> (\<forall>c \<in> set calcs. type_calc c = Divide
             \<longrightarrow> b_calc c \<noteq> 0 \<and> result_calc c = a_calc c / b_calc c))"
proof (intro conjI impI ballI)
  assume "get_current_user D db authorization = Inr u" "type_create calculation = Divide"
    "b_create calculation = 0"
  then show "create_calculation D db calcs authorization calculation =
            (calcs, Inl (HTTPException 422 ''Division by zero''))"
    by (simp add: create_calculation_cases)
next
  assume "get_current_user D db authorization = Inr u"
    "own_calculation calcs u calc_id = Some c"
    "(case type_new upd of None \<Rightarrow> type_calc c | Some t \<Rightarrow> t) = Divide"
    "(case b_new upd of None \<Rightarrow> b_calc c | Some y \<Rightarrow> y) = 0"
  then show "update_calculation D db calcs authorization calc_id upd =
            (calcs, Inl (HTTPException 422 ''Division by zero''))"
    by (simp add: update_calculation_def Let_def calculate_def)
next
  fix c
  assume "reachable_calcs calcs" "c \<in> set calcs" "type_calc c = Divide"
  then have "calculate Divide (a_calc c) (b_calc c) = Inr (result_calc c)"
    using reachable_calcs_inv [of calcs] by (auto simp: calcs_inv_def well_formed_def)
  then show "b_calc c \<noteq> 0" and "result_calc c = a_calc c / b_calc c"
    by (simp_all add: calculate_named named_operation_def)
qed

theorem division_by_zero_rejected_witness:
  "get_current_user example_decode [alice, bob] (Some ''token:alice'') = Inr alice
   \<and> type_create ten_by_zero = Divide \<and> b_create ten_by_zero = 0
   \<and> create_calculation example_decode [alice, bob] [alice_sum, bob_quotient]
        (Some ''token:alice'') ten_by_zero
       = ([alice_sum, bob_quotient], Inl (HTTPException 422 ''Division by zero''))
   \<and> get_current_user example_decode [alice, bob] (Some ''token:bob'') = Inr bob
   \<and> own_calculation [alice_sum, bob_quotient] bob 2 = Some bob_quotient
   \<and> (case type_new divisor_zero of None \<Rightarrow> type_calc bob_quotient | Some t \<Rightarrow> t) = Divide
   \<and> (case b_new divisor_zero of None \<Rightarrow> b_calc bob_quotient | Some y \<Rightarrow> y) = 0
   \<and> update_calculation example_decode [alice, bob] [alice_sum, bob_quotient]
        (Some ''token:bob'') 2 divisor_zero
       = ([alice_sum, bob_quotient], Inl (HTTPException 422 ''Division by zero''))
   \<and> reachable_calcs [alice_sum, bob_quotient]
   \<and> bob_quotient \<in> set [alice_sum, bob_quotient] \<and> type_calc bob_quotient = Divide
   \<and> b_calc bob_quotient \<noteq> 0
   \<and> result_calc bob_quotient = a_calc bob_quotient / b_calc bob_quotient"
proof -
  have t: "type_create ten_by_zero = Divide" and z: "b_create ten_by_zero = 0"
    by (simp_all add: ten_by_zero_def)
  have o: "own_calculation [alice_sum, bob_quotient] bob 2 = Some bob_quotient"
    by (simp add: own_calculation_def alice_sum_def bob_quotient_def bob_def)
  have t2: "(case type_new divisor_zero of None \<Rightarrow> type_calc bob_quotient | Some t \<Rightarrow> t)
      = Divide"
    by (simp add: divisor_zero_def bob_quotient_def)
  have z2: "(case b_new divisor_zero of None \<Rightarrow> b_calc bob_quotient | Some y \<Rightarrow> y) = 0"
    by (simp add: divisor_zero_def)
  have m: "bob_quotient \<in> set [alice_sum, bob_quotient]" by simp
  have d: "type_calc bob_quotient = Divide" by (simp add: bob_quotient_def)
  note c1 = division_by_zero_rejected [THEN conjunct1, THEN mp, THEN mp, THEN mp,
      OF alice_authenticated t z]
  note c2 = division_by_zero_rejected [THEN conjunct2, THEN conjunct1, THEN mp, THEN mp,
      THEN mp, THEN mp, OF bob_authenticated o t2 z2]
  note c3 = division_by_zero_rejected [THEN conjunct2, THEN conjunct2, THEN mp,
      OF reachable_calcs_example, THEN bspec, OF m, THEN mp, OF d]
  from alice_authenticated t z c1 bob_authenticated o t2 z2 c2 reachable_calcs_example m d
    c3 [THEN conjunct1] c3 [THEN conjunct2]
  show ?thesis by (intro conjI)
qed

section \<open>Stored results\<close>

text \<open>
  C7. In every table the handlers can produce, the stored result of every calculation is
  the operation its type names applied to its operands: a + b for Add, a - b for
  Subtract, a * b for Multiply and a / b for Divide, the divisor then being other than 0.
  A successful create stores and answers with a record that has the operands and type of
  the request and that result. A successful update stores and answers with the record of
  the given key in which the fields given replace the old ones, and its result is
  computed again from the type and operands it now has.
\<close>

theorem stored_result_is_named_operation:
  "(reachable_calcs calcs
      \<longrightarrow> (\<forall>c \<in> set calcs.
            (type_calc c = Add \<longrightarrow> result_calc c = a_calc c + b_calc c)
          \<and> (type_calc c = Subtract \<longrightarrow> result_calc c = a_calc c - b_calc c)
          \<and> (type_calc c = Multiply \<longrightarrow> result_calc c = a_calc c * b_calc c)
          \<and> (type_calc c = Divide
               \<longrightarrow> b_calc c \<noteq> 0 \<and> result_calc c = a_calc c / b_calc c)))
   \<and> (create_calculation D db calcs authorization calculation = (calcs', Inr c)
      \<longrightarrow> calcs' = calcs @ [c]
        \<and> a_calc c = a_create calculation \<and> b_calc c = b_create calculation
        \<and> type_calc c = type_create calculation
        \<and> result_calc c = named_operation (type_calc c) (a_calc c) (b_calc c)
        \<and> (type_calc c = Divide \<longrightarrow> b_calc c \<noteq> 0))
   \<and> (update_calculation D db calcs authorization calc_id upd = (calcs', Inr c')
      \<longrightarrow> (\<exists>old \<in> set calcs. id_calc old = calc_id
             \<and> a_calc c' = (case a_new upd of None \<Rightarrow> a_calc old | Some v \<Rightarrow> v)
             \<and> b_calc c' = (case b_new upd of None \<Rightarrow> b_calc old | Some v \<Rightarrow> v)
             \<and> type_calc c' = (case type_new upd of None \<Rightarrow> type_calc old | Some v \<Rightarrow> v))
        \<and> c' \<in> set calcs'
        \<and> result_calc c' = named_operation (type_calc c') (a_calc c') (b_calc c')
        \<and> (type_calc c' = Divide \<longrightarrow> b_calc c' \<noteq> 0))"
proof (intro conjI impI ballI)
  fix c
  assume "reachable_calcs calcs" "c \<in> set calcs"
  then have wf: "calculate (type_calc c) (a_calc c) (b_calc c) = Inr (result_calc c)"
    using reachable_calcs_inv [of calcs] by (auto simp: calcs_inv_def well_formed_def)
  {
    assume "type_calc c = Add"
    with wf show "result_calc c = a_calc c + b_calc c"
      by (simp add: calculate_named named_operation_def)
  next
    assume "type_calc c = Subtract"
    with wf show "result_calc c = a_calc c - b_calc c"
      by (simp add: calculate_named named_operation_def)
  next
    assume "type_calc c = Multiply"
    with wf show "result_calc c = a_calc c * b_calc c"
      by (simp add: calculate_named named_operation_def)
  next
    assume "type_calc c = Divide"
    with wf show "b_calc c \<noteq> 0" and "result_calc c = a_calc c / b_calc c"
      by (simp_all add: calculate_named named_operation_def)
  }
next
  assume cr: "create_calculation D db calcs authorization calculation = (calcs', Inr c)"
  then have c: "calcs' = calcs @ [c]" "a_calc c = a_create calculation"
    "b_calc c = b_create calculation" "type_calc c = type_create calculation"
    "result_calc c = named_operation (type_create calculation) (a_create calculation)
       (b_create calculation)"
    "\<not> (type_create calculation = Divide \<and> b_create calculation = 0)"
    by (auto simp: create_calculation_cases split: sum.splits if_splits)
  from c show "calcs' = calcs @ [c]" "a_calc c = a_create calculation"
    "b_calc c = b_create calculation" "type_calc c = type_create calculation"
    by simp_all
  from c show "result_calc c = named_operation (type_calc c) (a_calc c) (b_calc c)"
    by simp
  assume "type_calc c = Divide"
  with c show "b_calc c \<noteq> 0" by auto
next
  assume "update_calculation D db calcs authorization calc_id upd = (calcs', Inr c')"
  from update_calculation_Inr [OF this] obtain u old where
    old: "own_calculation calcs u calc_id = Some old"
    and f: "a_calc c' = (case a_new upd of None \<Rightarrow> a_calc old | Some v \<Rightarrow> v)"
      "b_calc c' = (case b_new upd of None \<Rightarrow> b_calc old | Some v \<Rightarrow> v)"
      "type_calc c' = (case type_new upd of None \<Rightarrow> type_calc old | Some v \<Rightarrow> v)"
    and wf: "calculate (type_calc c') (a_calc c') (b_calc c') = Inr (result_calc c')"
    and st: "calcs' = map (\<lambda>d. if id_calc d = calc_id then c' else d) calcs"
    by blast
  note o = own_calculation_Some [OF old]
  from o f show "\<exists>old \<in> set calcs. id_calc old = calc_id
             \<and> a_calc c' = (case a_new upd of None \<Rightarrow> a_calc old | Some v \<Rightarrow> v)
             \<and> b_calc c' = (case b_new upd of None \<Rightarrow> b_calc old | Some v \<Rightarrow> v)
             \<and> type_calc c' = (case type_new upd of None \<Rightarrow> type_calc old | Some v \<Rightarrow> v)"
    by blast
  from o have "(\<lambda>d. if id_calc d = calc_id then c' else d) old \<in> set calcs'"
    unfolding st set_map by (intro imageI) simp
  with o show "c' \<in> set calcs'" by simp
  from wf show "result_calc c' = named_operation (type_calc c') (a_calc c') (b_calc c')"
    by (simp add: calculate_named)
  assume "type_calc c' = Divide"
  with wf show "b_calc c' \<noteq> 0" by (simp add: calculate_named)
qed


lemma update_alice_sum:
  "update_calculation example_decode [alice, bob] [alice_sum, bob_quotient]
     (Some ''token:alice'') 1 to_subtract
     = ([alice_difference, bob_quotient], Inr alice_difference)"
proof -
  have "id_user alice = 1" by (simp add: alice_def)
  then have "own_calculation [alice_sum, bob_quotient] alice 1 = Some alice_sum"
    by (simp add: own_calculation_def alice_sum_def)
  moreover have "calculate Subtract 10 5 = Inr 5"
    by (simp add: calculate_def)
  moreover have "alice_sum\<lparr>a_calc := 10, b_calc := 5, type_calc := Subtract, result_calc := 5\<rparr>
      = alice_difference"
    by (simp add: alice_sum_def alice_difference_def)
  moreover have "a_calc alice_sum = 10" "b_calc alice_sum = 5" "id_calc alice_sum = 1"
    "id_calc bob_quotient \<noteq> 1"
    by (simp_all add: alice_sum_def bob_quotient_def)
  ultimately show ?thesis
    by (simp add: update_calculation_def alice_authenticated to_subtract_def Let_def)
qed

lemma create_alice_product:
  "create_calculation example_decode [alice, bob] [alice_difference, bob_quotient]
     (Some ''token:alice'') seven_times_eight
     = ([alice_difference, bob_quotient, alice_product], Inr alice_product)"
proof -
  have "id_user alice = 1" by (simp add: alice_def)
  moreover have "Suc (max_calc_id [alice_difference, bob_quotient]) = 3"
    by (simp add: alice_difference_def bob_quotient_def)
  ultimately show ?thesis
    by (simp add: create_calculation_cases alice_authenticated seven_times_eight_def
        alice_product_def named_operation_def)
qed

lemma reachable_calcs_example3: "reachable_calcs [alice_difference, bob_quotient, alice_product]"
proof -
  from reachable_calcs.updated [OF reachable_calcs_example,
      of example_decode "[alice, bob]" "Some ''token:alice''" 1 to_subtract]
  have "reachable_calcs [alice_difference, bob_quotient]"
    by (simp only: update_alice_sum fst_conv)
  from reachable_calcs.created [OF this,
      of example_decode "[alice, bob]" "Some ''token:alice''" seven_times_eight]
  show ?thesis
    by (simp only: create_alice_product fst_conv)
qed

theorem stored_result_is_named_operation_witness:
  "reachable_calcs [alice_sum, bob_quotient] \<and> alice_sum \<in> set [alice_sum, bob_quotient]
   \<and> type_calc alice_sum = Add
   \<and> result_calc alice_sum = a_calc alice_sum + b_calc alice_sum
   \<and> reachable_calcs [alice_difference, bob_quotient, alice_product]
   \<and> alice_difference \<in> set [alice_difference, bob_quotient, alice_product]
   \<and> type_calc alice_difference = Subtract
   \<and> result_calc alice_difference = a_calc alice_difference - b_calc alice_difference
   \<and> alice_product \<in> set [alice_difference, bob_quotient, alice_product]
   \<and> type_calc alice_product = Multiply
   \<and> result_calc alice_product = a_calc alice_product * b_calc alice_product
   \<and> bob_quotient \<in> set [alice_difference, bob_quotient, alice_product]
   \<and> type_calc bob_quotient = Divide
   \<and> b_calc bob_quotient \<noteq> 0
   \<and> result_calc bob_quotient = a_calc bob_quotient / b_calc bob_quotient
   \<and> create_calculation example_decode [alice, bob] [alice_sum] (Some ''token:bob'')
        twenty_by_four = ([alice_sum, bob_quotient], Inr bob_quotient)
   \<and> result_calc bob_quotient
       = named_operation (type_calc bob_quotient) (a_calc bob_quotient) (b_calc bob_quotient)
   \<and> update_calculation example_decode [alice, bob] [alice_sum, bob_quotient]
        (Some ''token:alice'') 1 to_subtract
       = ([alice_difference, bob_quotient], Inr alice_difference)
   \<and> alice_difference \<in> set [alice_difference, bob_quotient]
   \<and> result_calc alice_difference
       = named_operation (type_calc alice_difference) (a_calc alice_difference)
           (b_calc alice_difference)"
proof -
  note R = stored_result_is_named_operation [THEN conjunct1, THEN mp]
  have m1: "alice_sum \<in> set [alice_sum, bob_quotient]" by simp
  have t1: "type_calc alice_sum = Add" by (simp add: alice_sum_def)
  have m2: "alice_difference \<in> set [alice_difference, bob_quotient, alice_product]" by simp
  have t2: "type_calc alice_difference = Subtract" by (simp add: alice_difference_def)
  have m3: "alice_product \<in> set [alice_difference, bob_quotient, alice_product]" by simp
  have t3: "type_calc alice_product = Multiply" by (simp add: alice_product_def)
  have m4: "bob_quotient \<in> set [alice_difference, bob_quotient, alice_product]" by simp
  have t4: "type_calc bob_quotient = Divide" by (simp add: bob_quotient_def)
  note a = R [OF reachable_calcs_example, THEN bspec, OF m1, THEN conjunct1, THEN mp, OF t1]
  note s = R [OF reachable_calcs_example3, THEN bspec, OF m2, THEN conjunct2, THEN conjunct1,
      THEN mp, OF t2]
  note p = R [OF reachable_calcs_example3, THEN bspec, OF m3, THEN conjunct2, THEN conjunct2,
      THEN conjunct1, THEN mp, OF t3]
  note q = R [OF reachable_calcs_example3, THEN bspec, OF m4, THEN conjunct2, THEN conjunct2,
      THEN conjunct2, THEN mp, OF t4]
  note c = stored_result_is_named_operation [THEN conjunct2, THEN conjunct1, THEN mp,
      OF create_bob_quotient]
  note u = stored_result_is_named_operation [THEN conjunct2, THEN conjunct2, THEN mp,
      OF update_alice_sum]
  from reachable_calcs_example m1 t1 a reachable_calcs_example3 m2 t2 s m3 t3 p m4 t4
    q [THEN conjunct1] q [THEN conjunct2] create_bob_quotient
    c [THEN conjunct2, THEN conjunct2, THEN conjunct2, THEN conjunct2, THEN conjunct1]
    update_alice_sum u [THEN conjunct2, THEN conjunct1]
    u [THEN conjunct2, THEN conjunct2, THEN conjunct1]
  show ?thesis by (intro conjI)
qed

section \<open>Ownership of calculations\<close>

lemma filter_map_other:
  "\<forall>d \<in> set xs. id_calc d = calc_id \<longrightarrow> \<not> P d \<Longrightarrow> \<not> P c'
     \<Longrightarrow> filter P (map (\<lambda>d. if id_calc d = calc_id then c' else d) xs) = filter P xs"
  by (induction xs) simp_all

lemma filter_filter_other:
  "\<forall>d \<in> set xs. id_calc d = calc_id \<longrightarrow> \<not> P d
     \<Longrightarrow> filter P (filter (\<lambda>c. id_calc c \<noteq> calc_id) xs) = filter P xs"
  by (induction xs) simp_all

lemma same_key_same_record:
  assumes "distinct (map id_calc xs)" and "c \<in> set xs" and "d \<in> set xs"
    and "id_calc d = id_calc c"
  shows "d = c"
  using assms by (meson distinct_map inj_onD)

lemma unauthenticated:
  assumes "\<forall>u. get_current_user D db authorization \<noteq> Inr u"
  shows "\<exists>e. get_current_user D db authorization = Inl e \<and> status_code e = 401"
proof (cases "get_current_user D db authorization")
  case (Inl e)
  with get_current_user_status show ?thesis by blast
next
  case (Inr u)
  with assms show ?thesis by simp
qed

lemma others_untouched:
  assumes auth: "get_current_user D db authorization = Inr u"
    and reach: "reachable_calcs calcs"
    and other: "id_user v \<noteq> id_user u"
  shows "filter (\<lambda>c. user_id c = id_user v)
           (fst (create_calculation D db calcs authorization calculation)) =
         filter (\<lambda>c. user_id c = id_user v) calcs"
    and "filter (\<lambda>c. user_id c = id_user v)
           (fst (update_calculation D db calcs authorization calc_id upd)) =
         filter (\<lambda>c. user_id c = id_user v) calcs"
    and "filter (\<lambda>c. user_id c = id_user v)
           (fst (delete_calculation D db calcs authorization calc_id)) =
         filter (\<lambda>c. user_id c = id_user v) calcs"
proof -
  from reach have d: "distinct (map id_calc calcs)"
    using reachable_calcs_inv by (simp add: calcs_inv_def)
  from auth other show "filter (\<lambda>c. user_id c = id_user v)
           (fst (create_calculation D db calcs authorization calculation)) =
         filter (\<lambda>c. user_id c = id_user v) calcs"
    by (simp add: create_calculation_cases)
  have mine: "\<forall>x \<in> set calcs. id_calc x = calc_id \<longrightarrow> \<not> user_id x = id_user v"
    if "own_calculation calcs u calc_id = Some c" for c
  proof (intro ballI impI)
    fix x
    assume "x \<in> set calcs" "id_calc x = calc_id"
    with own_calculation_Some [OF that] d have "x = c"
      by (intro same_key_same_record [of calcs]) simp_all
    with own_calculation_Some [OF that] other show "\<not> user_id x = id_user v" by simp
  qed
  show "filter (\<lambda>c. user_id c = id_user v)
           (fst (update_calculation D db calcs authorization calc_id upd)) =
         filter (\<lambda>c. user_id c = id_user v) calcs"
  proof (cases "snd (update_calculation D db calcs authorization calc_id upd)")
    case (Inl e)
    with update_calculation_state [of D db calcs authorization calc_id upd]
    show ?thesis by simp
  next
    case (Inr c')
    then have "update_calculation D db calcs authorization calc_id upd =
         (fst (update_calculation D db calcs authorization calc_id upd), Inr c')"
      by (metis prod.collapse)
    from update_calculation_Inr [OF this] auth obtain c where
      c: "own_calculation calcs u calc_id = Some c" and o: "user_id c' = user_id c"
      and st: "fst (update_calculation D db calcs authorization calc_id upd) =
                 map (\<lambda>d. if id_calc d = calc_id then c' else d) calcs"
      by auto
    from own_calculation_Some [OF c] o other have "\<not> user_id c' = id_user v" by simp
    with mine [OF c] show ?thesis
      unfolding st by (rule filter_map_other)
  qed
  show "filter (\<lambda>c. user_id c = id_user v)
           (fst (delete_calculation D db calcs authorization calc_id)) =
         filter (\<lambda>c. user_id c = id_user v) calcs"
  proof (cases "own_calculation calcs u calc_id")
    case None
    with auth show ?thesis by (simp add: delete_calculation_def)
  next
    case (Some c)
    with auth have "fst (delete_calculation D db calcs authorization calc_id) =
        filter (\<lambda>c. id_calc c \<noteq> calc_id) calcs"
      by (simp add: delete_calculation_def)
    with mine [OF Some] show ?thesis
      by (simp only: filter_filter_other)
  qed
qed


text \<open>
  C1. Every calculation handler resolves the user first. A request whose bearer token is
  missing, does not validate or names no stored user is answered with status 401 by
  create, list, read, update and delete alike, and the table is returned as it was. For
  an authenticated user, the list is exactly the records of the table that carry the
  user's id; a record the user creates carries the user's id, and a record the user
  reads or updates does too; no create, update or delete of the user changes the records
  that carry the id of anyone else, so that the records with a user's id are those the
  user created (as last updated by the user, less those the user deleted). Two different
  users of a reachable user table have different ids.
\<close>

theorem calculations_scoped_to_user:
  "((\<forall>u. get_current_user D db authorization \<noteq> Inr u)
      \<longrightarrow> (\<exists>e. status_code e = 401
            \<and> create_calculation D db calcs authorization calculation = (calcs, Inl e)
            \<and> read_calculations D db calcs authorization = (calcs, Inl e)
            \<and> read_calculation D db calcs authorization calc_id = (calcs, Inl e)
            \<and> update_calculation D db calcs authorization calc_id upd = (calcs, Inl e)
            \<and> delete_calculation D db calcs authorization calc_id = (calcs, Inl e)))
   \<and> (get_current_user D db authorization = Inr u
      \<longrightarrow> read_calculations D db calcs authorization =
            (calcs, Inr (filter (\<lambda>c. user_id c = id_user u) calcs)))
   \<and> (get_current_user D db authorization = Inr u
      \<longrightarrow> create_calculation D db calcs authorization calculation = (calcs', Inr c)
      \<longrightarrow> user_id c = id_user u \<and> calcs' = calcs @ [c])
   \<and> (get_current_user D db authorization = Inr u
      \<longrightarrow> read_calculation D db calcs authorization calc_id = (calcs', Inr c)
      \<longrightarrow> user_id c = id_user u \<and> c \<in> set calcs \<and> calcs' = calcs)
   \<and> (get_current_user D db authorization = Inr u
      \<longrightarrow> update_calculation D db calcs authorization calc_id upd = (calcs', Inr c)
      \<longrightarrow> user_id c = id_user u)
   \<and> (get_current_user D db authorization = Inr u \<longrightarrow> reachable_calcs calcs
      \<longrightarrow> id_user v \<noteq> id_user u
      \<longrightarrow> filter (\<lambda>c. user_id c = id_user v)
              (fst (create_calculation D db calcs authorization calculation)) =
            filter (\<lambda>c. user_id c = id_user v) calcs
        \<and> filter (\<lambda>c. user_id c = id_user v)
              (fst (update_calculation D db calcs authorization calc_id upd)) =
            filter (\<lambda>c. user_id c = id_user v) calcs
        \<and> filter (\<lambda>c. user_id c = id_user v)
              (fst (delete_calculation D db calcs authorization calc_id)) =
            filter (\<lambda>c. user_id c = id_user v) calcs)
   \<and> (reachable db \<longrightarrow> u \<in> set db \<longrightarrow> v \<in> set db \<longrightarrow> u \<noteq> v
      \<longrightarrow> id_user u \<noteq> id_user v)"
proof (intro conjI impI)
  assume "\<forall>u. get_current_user D db authorization \<noteq> Inr u"
  from unauthenticated [OF this] obtain e where
    e: "get_current_user D db authorization = Inl e" "status_code e = 401"
    by blast
  then have "status_code e = 401
            \<and> create_calculation D db calcs authorization calculation = (calcs, Inl e)
            \<and> read_calculations D db calcs authorization = (calcs, Inl e)
            \<and> read_calculation D db calcs authorization calc_id = (calcs, Inl e)
            \<and> update_calculation D db calcs authorization calc_id upd = (calcs, Inl e)
            \<and> delete_calculation D db calcs authorization calc_id = (calcs, Inl e)"
    by (simp add: create_calculation_def read_calculations_def read_calculation_def
        update_calculation_def delete_calculation_def)
  then show "\<exists>e. status_code e = 401
            \<and> create_calculation D db calcs authorization calculation = (calcs, Inl e)
            \<and> read_calculations D db calcs authorization = (calcs, Inl e)
            \<and> read_calculation D db calcs authorization calc_id = (calcs, Inl e)
            \<and> update_calculation D db calcs authorization calc_id upd = (calcs, Inl e)
            \<and> delete_calculation D db calcs authorization calc_id = (calcs, Inl e)"
    by (rule exI)
next
  assume "get_current_user D db authorization = Inr u"
  then show "read_calculations D db calcs authorization =
            (calcs, Inr (filter (\<lambda>c. user_id c = id_user u) calcs))"
    by (simp add: read_calculations_def)
next
  assume "get_current_user D db authorization = Inr u"
    and "create_calculation D db calcs authorization calculation = (calcs', Inr c)"
  then show "user_id c = id_user u" and "calcs' = calcs @ [c]"
    by (auto simp: create_calculation_cases split: if_splits)
next
  assume auth: "get_current_user D db authorization = Inr u"
    and "read_calculation D db calcs authorization calc_id = (calcs', Inr c)"
  then have "own_calculation calcs u calc_id = Some c" and "calcs' = calcs"
    by (auto simp: read_calculation_def split: option.splits)
  with own_calculation_Some [of calcs u calc_id c]
  show "user_id c = id_user u" and "c \<in> set calcs" and "calcs' = calcs"
    by simp_all
next
  assume auth: "get_current_user D db authorization = Inr u"
    and "update_calculation D db calcs authorization calc_id upd = (calcs', Inr c)"
  from update_calculation_Inr [OF this(2)] auth obtain old where
    "own_calculation calcs u calc_id = Some old" and "user_id c = user_id old"
    by auto
  with own_calculation_Some [of calcs u calc_id old] show "user_id c = id_user u"
    by simp
next
  assume "get_current_user D db authorization = Inr u" and "reachable_calcs calcs"
    and "id_user v \<noteq> id_user u"
  from others_untouched [OF this]
  show "filter (\<lambda>c. user_id c = id_user v)
              (fst (create_calculation D db calcs authorization calculation)) =
            filter (\<lambda>c. user_id c = id_user v) calcs"
    and "filter (\<lambda>c. user_id c = id_user v)
              (fst (update_calculation D db calcs authorization calc_id upd)) =
            filter (\<lambda>c. user_id c = id_user v) calcs"
    and "filter (\<lambda>c. user_id c = id_user v)
              (fst (delete_calculation D db calcs authorization calc_id)) =
            filter (\<lambda>c. user_id c = id_user v) calcs"
    by blast+
next
  assume "reachable db" and uv: "u \<in> set db" "v \<in> set db" "u \<noteq> v"
  then have "distinct (map id_user db)"
    using reachable_unique by (simp add: unique_users_def)
  with uv show "id_user u \<noteq> id_user v"
    by (meson distinct_map inj_onD)
qed


lemma read_alice_sum:
  "read_calculation example_decode [alice, bob] [alice_sum, bob_quotient]
     (Some ''token:alice'') 1 = ([alice_sum, bob_quotient], Inr alice_sum)"
proof -
  have "id_user alice = 1" by (simp add: alice_def)
  then have "own_calculation [alice_sum, bob_quotient] alice 1 = Some alice_sum"
    by (simp add: own_calculation_def alice_sum_def)
  then show ?thesis
    by (simp add: read_calculation_def alice_authenticated)
qed

theorem calculations_scoped_to_user_witness:
  "(\<forall>u. get_current_user example_decode [alice, bob] None \<noteq> Inr u)
   \<and> (\<exists>e. status_code e = 401
        \<and> create_calculation example_decode [alice, bob] [alice_sum, bob_quotient] None
             seven_times_eight = ([alice_sum, bob_quotient], Inl e)
        \<and> read_calculations example_decode [alice, bob] [alice_sum, bob_quotient] None
             = ([alice_sum, bob_quotient], Inl e)
        \<and> read_calculation example_decode [alice, bob] [alice_sum, bob_quotient] None 1
             = ([alice_sum, bob_quotient], Inl e)
        \<and> update_calculation example_decode [alice, bob] [alice_sum, bob_quotient] None 1
             to_subtract = ([alice_sum, bob_quotient], Inl e)
        \<and> delete_calculation example_decode [alice, bob] [alice_sum, bob_quotient] None 1
             = ([alice_sum, bob_quotient], Inl e))
   \<and> get_current_user example_decode [alice, bob] (Some ''token:alice'') = Inr alice
   \<and> read_calculations example_decode [alice, bob] [alice_sum, bob_quotient]
        (Some ''token:alice'')
       = ([alice_sum, bob_quotient],
          Inr (filter (\<lambda>c. user_id c = id_user alice) [alice_sum, bob_quotient]))
   \<and> filter (\<lambda>c. user_id c = id_user alice) [alice_sum, bob_quotient] = [alice_sum]
   \<and> get_current_user example_decode [alice, bob] (Some ''token:bob'') = Inr bob
   \<and> create_calculation example_decode [alice, bob] [alice_sum] (Some ''token:bob'')
        twenty_by_four = ([alice_sum, bob_quotient], Inr bob_quotient)
   \<and> user_id bob_quotient = id_user bob
   \<and> read_calculation example_decode [alice, bob] [alice_sum, bob_quotient]
        (Some ''token:alice'') 1 = ([alice_sum, bob_quotient], Inr alice_sum)
   \<and> user_id alice_sum = id_user alice
   \<and> update_calculation example_decode [alice, bob] [alice_sum, bob_quotient]
        (Some ''token:alice'') 1 to_subtract
       = ([alice_difference, bob_quotient], Inr alice_difference)
   \<and> user_id alice_difference = id_user alice
   \<and> reachable_calcs [alice_sum, bob_quotient]
   \<and> id_user bob \<noteq> id_user alice
   \<and> filter (\<lambda>c. user_id c = id_user bob)
        (fst (create_calculation example_decode [alice, bob] [alice_sum, bob_quotient]
               (Some ''token:alice'') seven_times_eight))
       = filter (\<lambda>c. user_id c = id_user bob) [alice_sum, bob_quotient]
   \<and> filter (\<lambda>c. user_id c = id_user bob)
        (fst (update_calculation example_decode [alice, bob] [alice_sum, bob_quotient]
               (Some ''token:alice'') 2 divisor_zero))
       = filter (\<lambda>c. user_id c = id_user bob) [alice_sum, bob_quotient]
   \<and> filter (\<lambda>c. user_id c = id_user bob)
        (fst (delete_calculation example_decode [alice, bob] [alice_sum, bob_quotient]
               (Some ''token:alice'') 2))
       = filter (\<lambda>c. user_id c = id_user bob) [alice_sum, bob_quotient]
   \<and> reachable [alice, bob] \<and> alice \<in> set [alice, bob] \<and> bob \<in> set [alice, bob]
   \<and> alice \<noteq> bob"
proof -
  have n: "\<forall>u. get_current_user example_decode [alice, bob] None \<noteq> Inr u"
    by (simp add: get_current_user_def)
  have f: "filter (\<lambda>c. user_id c = id_user alice) [alice_sum, bob_quotient] = [alice_sum]"
    by (simp add: alice_def alice_sum_def bob_quotient_def)
  have i: "id_user bob \<noteq> id_user alice" by (simp add: alice_def bob_def)
  have m: "alice \<in> set [alice, bob]" "bob \<in> set [alice, bob]" by simp_all
  have ne: "alice \<noteq> bob"
  proof
    assume "alice = bob"
    then have "id_user alice = id_user bob" by simp
    with i show False by simp
  qed
  note T = calculations_scoped_to_user
  note c1 = T [THEN conjunct1, THEN mp, OF n]
  note c2 = T [THEN conjunct2, THEN conjunct1, THEN mp, OF alice_authenticated]
  note c3 = T [THEN conjunct2, THEN conjunct2, THEN conjunct1, THEN mp, THEN mp,
      OF bob_authenticated create_bob_quotient]
  note c4 = T [THEN conjunct2, THEN conjunct2, THEN conjunct2, THEN conjunct1, THEN mp,
      THEN mp, OF alice_authenticated read_alice_sum]
  note c5 = T [THEN conjunct2, THEN conjunct2, THEN conjunct2, THEN conjunct2,
      THEN conjunct1, THEN mp, THEN mp, OF alice_authenticated update_alice_sum]
  note c6 = T [THEN conjunct2, THEN conjunct2, THEN conjunct2, THEN conjunct2,
      THEN conjunct2, THEN conjunct1, THEN mp, THEN mp, THEN mp,
      OF alice_authenticated reachable_calcs_example i]
  note c7 = T [THEN conjunct2, THEN conjunct2, THEN conjunct2, THEN conjunct2,
      THEN conjunct2, THEN conjunct2, THEN mp, THEN mp, THEN mp, THEN mp,
      OF reachable_alice_bob m ne]
  from n c1 [of "[alice_sum, bob_quotient]" seven_times_eight 1 to_subtract]
    alice_authenticated c2 f bob_authenticated create_bob_quotient c3 [THEN conjunct1]
    read_alice_sum c4 [THEN conjunct1] update_alice_sum c5 reachable_calcs_example i
    c6 [THEN conjunct1, of seven_times_eight] c6 [THEN conjunct2, THEN conjunct1, of 2 divisor_zero]
    c6 [THEN conjunct2, THEN conjunct2, of 2]
    reachable_alice_bob m ne
  show ?thesis by (intro conjI)
qed

section \<open>Registration followed by login\<close>

text \<open>
  What the handlers contribute to logging in after registering, for any hashing utility:
  register stores the hash of the password, and a login under the new name verifies the
  password given against that hash.
\<close>

lemma register_then_login:
  assumes "reachable db" and "register_user U now db user = (db', Inr r)"
  shows "login_user U db' \<lparr>username_login = username_create user, password_login = q\<rparr> =
           (if verify_password U q (hash_password U (password_create user))
            then (db', Inr \<lparr>access_token = create_access_token U (username_create user),
                            token_type = ''bearer''\<rparr>)
            else (db', Inl (HTTPException 401 ''Invalid credentials'')))"
proof -
  let ?new = "\<lparr>id_user = fresh_id db, username = username_create user,
               email = email_create user,
               password_hash = hash_password U (password_create user), created_at = now\<rparr>"
  from assms(2) have db': "db' = db @ [?new]"
    by (auto simp: register_user_if split: if_splits)
  from assms(1) have "unique_users db" by (rule reachable_unique)
  then have "unique_users (fst (register_user U now db user))"
    by (rule register_user_unique)
  with assms(2) have "distinct (map username db')"
    by (simp add: unique_users_def)
  moreover have "?new \<in> set db'"
    by (simp add: db')
  ultimately show ?thesis
    using login_user_row [of db' ?new U q] by simp
qed

end
